theory Spec2Isabelle
  imports Complex_Main
begin

section \<open>Scalene profile parser: data model\<close>

text \<open>
  The parser module (\<open>utils/parser\<close>) turns the raw JSON report of the profiler into the
  normalized profile that the viewer renders. The embedding follows the TypeScript
  declarations of \<open>types\<close>:

  \<^item> an interface is a record; an optional property \<open>p?: T\<close> is a field of type
    \<open>T option\<close>, \<open>None\<close> standing for \<open>undefined\<close>;
  \<^item> a \<open>number\<close> that the report holds, a sum and a leak score is a \<open>real\<close>: a
    finite number, with exact arithmetic (no rounding, no overflow) and with a decimal
    literal denoting its decimal value;
  \<^item> the quotient and the product that make the growth rate are \<open>js_number\<close>s: a
    division by zero gives \<open>NaN\<close> or an infinity, and a result that reaches the
    overflow threshold of the doubles is an infinity;
  \<^item> line numbers are integers (\<open>int\<close>);
  \<^item> a \<open>Record<K, V>\<close> is an association list in property order; an assignment
    \<open>obj[k] = v\<close> replaces the value of an existing key in place and appends a new key.
\<close>

subsection \<open>Raw report\<close>

record RawScaleneLine =
  rl_lineno :: int
  rl_line :: string
  rl_n_cpu_percent_python :: "real option"
  rl_n_cpu_percent_c :: "real option"
  rl_n_sys_percent :: "real option"
  rl_n_core_utilization :: "real option"
  rl_cpu_samples_list :: "real list option"
  rl_n_malloc_mb :: "real option"
  rl_n_peak_mb :: "real option"
  rl_n_avg_mb :: "real option"
  rl_n_growth_mb :: "real option"
  rl_n_python_fraction :: "real option"
  rl_n_usage_fraction :: "real option"
  rl_n_copy_mb_s :: "real option"
  rl_n_mallocs :: "real option"
  rl_memory_samples :: "(real \<times> real) list option"
  rl_n_gpu_percent :: "real option"
  rl_n_gpu_peak_memory_mb :: "real option"
  rl_n_gpu_avg_memory_mb :: "real option"
  rl_start_region_line :: "real option"
  rl_end_region_line :: "real option"
  rl_start_outermost_loop :: "real option"
  rl_end_outermost_loop :: "real option"

record RawScaleneFunction =
  rfn_name :: "string option"
  rfn_lineno :: "int option"
  rfn_n_cpu_percent_python :: "real option"
  rfn_n_cpu_percent_c :: "real option"
  rfn_n_sys_percent :: "real option"
  rfn_n_malloc_mb :: "real option"
  rfn_n_peak_mb :: "real option"
  rfn_n_growth_mb :: "real option"
  rfn_n_copy_mb_s :: "real option"

record RawScaleneFile =
  rf_lines :: "RawScaleneLine list"
  rf_functions :: "RawScaleneFunction list"
  rf_imports :: "string list option"
  rf_leaks :: "(string \<times> real) list option"

text \<open>
  \<open>rp_files\<close> holds the entries of the \<open>files\<close> object in the order in which
  \<open>Object.entries\<close> enumerates them.
\<close>

record RawScaleneProfile =
  rp_alloc_samples :: "real option"
  rp_free_samples :: "real option"
  rp_args :: "string list option"
  rp_elapsed_time_sec :: real
  rp_entrypoint_dir :: "string option"
  rp_filename :: "string option"
  rp_files :: "(string \<times> RawScaleneFile) list"
  rp_growth_rate :: "real option"

subsection \<open>Normalized profile\<close>

datatype js_number = Finite real | NaN | PosInfinity | NegInfinity

record ScaleneLineData =
  lineno :: int
  code :: string
  n_cpu_percent_python :: "real option"
  n_cpu_percent_c :: "real option"
  n_sys_percent :: "real option"
  n_core_utilization :: "real option"
  cpu_samples_count :: "real option"
  n_malloc_mb :: "real option"
  n_peak_mb :: "real option"
  n_avg_mb :: "real option"
  n_growth_mb :: "real option"
  n_python_fraction :: "real option"
  n_usage_fraction :: "real option"
  n_copy_mb_s :: "real option"
  n_mallocs :: "real option"
  memory_samples_count :: "real option"
  n_gpu_percent :: "real option"
  n_gpu_peak_memory_mb :: "real option"
  n_gpu_avg_memory_mb :: "real option"
  leak_score :: "real option"

record ScaleneFunction =
  fn_name :: string
  fn_lineno :: int
  fn_n_cpu_percent_python :: "real option"
  fn_n_cpu_percent_c :: "real option"
  fn_n_sys_percent :: "real option"
  fn_n_malloc_mb :: "real option"
  fn_n_peak_mb :: "real option"
  fn_n_growth_mb :: "real option"
  fn_n_copy_mb_s :: "real option"

record ScaleneFileData =
  lines :: "(int \<times> ScaleneLineData) list"
  file_functions :: "ScaleneFunction list"
  leaks :: "(string \<times> real) list"

record ScaleneProfile =
  program :: string
  args :: "string list"
  elapsed_time :: real
  entrypoint_dir :: string
  max_memory_mb :: real
  total_memory_growth_mb :: real
  growth_rate :: js_number
  total_cpu_percent_python :: real
  total_cpu_percent_c :: real
  total_sys_percent :: real
  alloc_samples :: real
  free_samples :: real
  files :: "(string \<times> ScaleneFileData) list"

section \<open>The language primitives the parser uses\<close>

text \<open>Truthiness of an optional number: \<open>undefined\<close> and \<open>0\<close> are falsy.\<close>

definition truthy :: "real option \<Rightarrow> bool" where
  "truthy x = (case x of None \<Rightarrow> False | Some v \<Rightarrow> v \<noteq> 0)"

text \<open>\<open>x || d\<close> on an optional number.\<close>

definition num_or :: "real option \<Rightarrow> real \<Rightarrow> real" where
  "num_or x d = (case x of None \<Rightarrow> d | Some v \<Rightarrow> if v \<noteq> 0 then v else d)"

text \<open>\<open>obj[k] = v\<close>.\<close>

fun obj_set :: "'k \<Rightarrow> 'v \<Rightarrow> ('k \<times> 'v) list \<Rightarrow> ('k \<times> 'v) list" where
  "obj_set k v [] = [(k, v)]"
| "obj_set k v (p # ps) = (if fst p = k then (k, v) # ps else p # obj_set k v ps)"

text \<open>
  \<open>Object.values\<close> of an object with integer keys: the keys that are array indices
  (\<open>0 \<le> k < 2^32 - 1\<close>) come first, in ascending order, then the other keys in the
  order of their creation.
\<close>

definition is_array_index :: "int \<Rightarrow> bool" where
  "is_array_index k \<longleftrightarrow> 0 \<le> k \<and> k < 4294967295"

definition Object_values :: "(int \<times> 'v) list \<Rightarrow> 'v list" where
  "Object_values obj =
     map snd (sort_key fst (filter (\<lambda>p. is_array_index (fst p)) obj)
              @ filter (\<lambda>p. \<not> is_array_index (fst p)) obj)"

text \<open>Decimal digits of a natural number, and \<open>String(n)\<close> for an integer \<open>n\<close>.\<close>

definition digit_char :: "nat \<Rightarrow> char" where
  "digit_char d = ''0123456789'' ! d"

fun nat_digits :: "nat \<Rightarrow> string" where
  "nat_digits n =
     (if n < 10 then [digit_char n] else nat_digits (n div 10) @ [digit_char (n mod 10)])"

declare nat_digits.simps [simp del]

definition String_of_int :: "int \<Rightarrow> string" where
  "String_of_int i = (if i < 0 then ''-'' @ nat_digits (nat (- i)) else nat_digits (nat i))"

text \<open>
  The double that the exact result of an operation becomes. The largest double is
  \<open>2^1024 - 2^971\<close>; a result of magnitude \<open>2^1024 - 2^970\<close> or more, half a step
  beyond it, is rounded to an infinity. A smaller result is kept as it is: the rounding
  of finite results is not modelled.
\<close>

definition overflow_threshold :: real where
  "overflow_threshold = 2 ^ 1024 - 2 ^ 970"

definition to_double :: "real \<Rightarrow> js_number" where
  "to_double x =
     (if overflow_threshold \<le> x then PosInfinity
      else if x \<le> - overflow_threshold then NegInfinity
      else Finite x)"

text \<open>
  Division of finite numbers: a quotient by zero is \<open>NaN\<close> or an infinity, never an
  exception. Multiplication of such a result by a finite number.
\<close>

definition js_div :: "real \<Rightarrow> real \<Rightarrow> js_number" where
  "js_div a b =
     (if b \<noteq> 0 then to_double (a / b)
      else if a = 0 then NaN
      else if a > 0 then PosInfinity else NegInfinity)"

fun js_times :: "js_number \<Rightarrow> real \<Rightarrow> js_number" where
  "js_times (Finite a) c = to_double (a * c)"
| "js_times NaN c = NaN"
| "js_times PosInfinity c =
     (if c = 0 then NaN else if c > 0 then PosInfinity else NegInfinity)"
| "js_times NegInfinity c =
     (if c = 0 then NaN else if c > 0 then NegInfinity else PosInfinity)"

section \<open>The parser\<close>

subsection \<open>Leak score of a line\<close>

definition calculateLeakScore :: "RawScaleneLine \<Rightarrow> (string \<times> real) list option \<Rightarrow> real" where
  "calculateLeakScore line lks =
     (let score = 0;
          score = (case lks of
                     None \<Rightarrow> score
                   | Some m \<Rightarrow>
                       if truthy (map_of m (String_of_int (rl_lineno line)))
                       then score + the (map_of m (String_of_int (rl_lineno line)))
                       else score);
          score = (if truthy (rl_n_growth_mb line) \<and> the (rl_n_growth_mb line) > 0
                   then score + the (rl_n_growth_mb line) * 10 else score);
          score = (if truthy (rl_n_malloc_mb line) \<and> the (rl_n_malloc_mb line) > 0
                      \<and> truthy (rl_n_growth_mb line) \<and> the (rl_n_growth_mb line) > 0
                   then score + the (rl_n_malloc_mb line) * 5 else score);
          score = (if rl_n_usage_fraction line \<noteq> None \<and> the (rl_n_usage_fraction line) < 0.3
                      \<and> truthy (rl_n_growth_mb line) \<and> the (rl_n_growth_mb line) > 0
                   then score + 20 else score)
      in score)"

subsection \<open>Lines, functions, files\<close>

definition parseScaleneLine :: "RawScaleneLine \<Rightarrow> (string \<times> real) list option \<Rightarrow> ScaleneLineData" where
  "parseScaleneLine raw lks =
     (let leakScore = calculateLeakScore raw lks in
      \<lparr> lineno = rl_lineno raw,
        code = rl_line raw,
        n_cpu_percent_python = rl_n_cpu_percent_python raw,
        n_cpu_percent_c = rl_n_cpu_percent_c raw,
        n_sys_percent = rl_n_sys_percent raw,
        n_core_utilization = rl_n_core_utilization raw,
        cpu_samples_count =
          Some (num_or (map_option (\<lambda>xs. real (length xs)) (rl_cpu_samples_list raw)) 0),
        n_malloc_mb = rl_n_malloc_mb raw,
        n_peak_mb = rl_n_peak_mb raw,
        n_avg_mb = rl_n_avg_mb raw,
        n_growth_mb = rl_n_growth_mb raw,
        n_python_fraction = rl_n_python_fraction raw,
        n_usage_fraction = rl_n_usage_fraction raw,
        n_copy_mb_s = rl_n_copy_mb_s raw,
        n_mallocs = rl_n_mallocs raw,
        memory_samples_count =
          Some (num_or (map_option (\<lambda>xs. real (length xs)) (rl_memory_samples raw)) 0),
        n_gpu_percent = rl_n_gpu_percent raw,
        n_gpu_peak_memory_mb = rl_n_gpu_peak_memory_mb raw,
        n_gpu_avg_memory_mb = rl_n_gpu_avg_memory_mb raw,
        leak_score = Some leakScore \<rparr>)"

text \<open>
  \<open>!raw.name || !raw.lineno\<close>: the empty string and the number \<open>0\<close> are falsy, as
  \<open>undefined\<close> is.
\<close>

definition parseScaleneFunction :: "RawScaleneFunction \<Rightarrow> ScaleneFunction option" where
  "parseScaleneFunction raw =
     (if (case rfn_name raw of None \<Rightarrow> True | Some s \<Rightarrow> s = [])
         \<or> (case rfn_lineno raw of None \<Rightarrow> True | Some n \<Rightarrow> n = 0)
      then None
      else Some
        \<lparr> fn_name = the (rfn_name raw),
          fn_lineno = the (rfn_lineno raw),
          fn_n_cpu_percent_python = rfn_n_cpu_percent_python raw,
          fn_n_cpu_percent_c = rfn_n_cpu_percent_c raw,
          fn_n_sys_percent = rfn_n_sys_percent raw,
          fn_n_malloc_mb = rfn_n_malloc_mb raw,
          fn_n_peak_mb = rfn_n_peak_mb raw,
          fn_n_growth_mb = rfn_n_growth_mb raw,
          fn_n_copy_mb_s = rfn_n_copy_mb_s raw \<rparr>)"

definition parseScaleneFile :: "RawScaleneFile \<Rightarrow> ScaleneFileData" where
  "parseScaleneFile raw =
     \<lparr> lines =
         foldl (\<lambda>ls line. obj_set (rl_lineno line) (parseScaleneLine line (rf_leaks raw)) ls)
           [] (rf_lines raw),
       file_functions =
         map the (filter (\<lambda>f. f \<noteq> None) (map parseScaleneFunction (rf_functions raw))),
       leaks = (case rf_leaks raw of None \<Rightarrow> [] | Some m \<Rightarrow> m) \<rparr>"

subsection \<open>Leak classifier\<close>

text \<open>The threshold is optional; its default is 50.\<close>

definition isLikelyLeak :: "ScaleneLineData \<Rightarrow> real option \<Rightarrow> bool" where
  "isLikelyLeak line threshold =
     (num_or (leak_score line) 0 > (case threshold of None \<Rightarrow> 50 | Some t \<Rightarrow> t))"

subsection \<open>The whole report\<close>

text \<open>
  \<open>x || d\<close> on an optional string (the empty string is falsy), and \<open>xs?.[0]\<close> on an
  optional array.
\<close>

definition str_or :: "string option \<Rightarrow> string \<Rightarrow> string" where
  "str_or x d = (case x of None \<Rightarrow> d | Some s \<Rightarrow> if s \<noteq> [] then s else d)"

definition opt_first :: "'a list option \<Rightarrow> 'a option" where
  "opt_first xs = (case xs of None \<Rightarrow> None | Some [] \<Rightarrow> None | Some (a # _) \<Rightarrow> Some a)"

text \<open>The local variables of \<open>parseScaleneProfile\<close> that its loops update.\<close>

record parse_state =
  maxMemoryMb :: real
  totalMemoryGrowthMb :: real
  totalCpuPython :: real
  totalCpuC :: real
  totalSys :: real
  st_files :: "(string \<times> ScaleneFileData) list"

text \<open>The body of the inner loop, over the lines of one normalized file.\<close>

definition aggregate_line :: "parse_state \<Rightarrow> ScaleneLineData \<Rightarrow> parse_state" where
  "aggregate_line st lineData =
     (let st = (if truthy (n_peak_mb lineData) \<and> the (n_peak_mb lineData) > maxMemoryMb st
                then st\<lparr>maxMemoryMb := the (n_peak_mb lineData)\<rparr> else st);
          st = (if truthy (n_growth_mb lineData)
                then st\<lparr>totalMemoryGrowthMb :=
                          totalMemoryGrowthMb st + the (n_growth_mb lineData)\<rparr> else st);
          st = (if truthy (n_cpu_percent_python lineData)
                then st\<lparr>totalCpuPython :=
                          totalCpuPython st + the (n_cpu_percent_python lineData)\<rparr> else st);
          st = (if truthy (n_cpu_percent_c lineData)
                then st\<lparr>totalCpuC := totalCpuC st + the (n_cpu_percent_c lineData)\<rparr> else st);
          st = (if truthy (n_sys_percent lineData)
                then st\<lparr>totalSys := totalSys st + the (n_sys_percent lineData)\<rparr> else st)
      in st)"

text \<open>The body of the outer loop, over the entries of \<open>raw.files\<close>.\<close>

definition aggregate_file :: "parse_state \<Rightarrow> string \<times> RawScaleneFile \<Rightarrow> parse_state" where
  "aggregate_file st entry =
     (let normalizedFile = parseScaleneFile (snd entry);
          st = st\<lparr>st_files := obj_set (fst entry) normalizedFile (st_files st)\<rparr>
      in foldl aggregate_line st (Object_values (lines normalizedFile)))"

definition initial_state :: parse_state where
  "initial_state =
     \<lparr> maxMemoryMb = 0, totalMemoryGrowthMb = 0, totalCpuPython = 0, totalCpuC = 0,
       totalSys = 0, st_files = [] \<rparr>"

definition parseScaleneProfile :: "RawScaleneProfile \<Rightarrow> ScaleneProfile" where
  "parseScaleneProfile raw =
     (let st = foldl aggregate_file initial_state (rp_files raw);
          growthRate =
            (if maxMemoryMb st > 0
             then js_times (js_div (totalMemoryGrowthMb st) (maxMemoryMb st)) 100
             else Finite 0)
      in \<lparr> program = str_or (opt_first (rp_args raw)) (str_or (rp_filename raw) ''Unknown''),
           args = (case rp_args raw of None \<Rightarrow> [] | Some a \<Rightarrow> a),
           elapsed_time = rp_elapsed_time_sec raw,
           entrypoint_dir = str_or (rp_entrypoint_dir raw) [],
           max_memory_mb = maxMemoryMb st,
           total_memory_growth_mb = totalMemoryGrowthMb st,
           growth_rate = growthRate,
           total_cpu_percent_python = totalCpuPython st,
           total_cpu_percent_c = totalCpuC st,
           total_sys_percent = totalSys st,
           alloc_samples = num_or (rp_alloc_samples raw) 0,
           free_samples = num_or (rp_free_samples raw) 0,
           files = st_files st \<rparr>)"

subsection \<open>Formatting helpers\<close>

text \<open>
  \<open>x.toFixed(f)\<close>: the sign, then the integer \<open>n\<close> nearest to \<open>x * 10^f\<close> (the larger one
  of two equally near), written in decimal with at least \<open>f + 1\<close> digits and a point
  before the last \<open>f\<close> of them. From \<open>10^21\<close> on the result is that of the conversion of
  a number to a string, which the module does not define: it is the parameter
  \<open>numberToString\<close>.
\<close>

definition toFixed :: "(real \<Rightarrow> string) \<Rightarrow> nat \<Rightarrow> real \<Rightarrow> string" where
  "toFixed numberToString f x0 =
     (let s = (if x0 < 0 then ''-'' else []);
          x = (if x0 < 0 then - x0 else x0)
      in if x \<ge> 10 ^ 21 then s @ numberToString x
         else
           (let n = nat \<lfloor>x * 10 ^ f + 1 / 2\<rfloor>;
                m = nat_digits n;
                m = (if f \<noteq> 0
                     then (let m = replicate (f + 1 - length m) (CHR ''0'') @ m;
                               k = length m
                           in take (k - f) m @ ''.'' @ drop (k - f) m)
                     else m)
            in s @ m))"

definition formatMemoryMb :: "(real \<Rightarrow> string) \<Rightarrow> real option \<Rightarrow> string" where
  "formatMemoryMb numberToString mb =
     (if mb = None \<or> the mb = 0 then ''-''
      else if the mb < 0.01 then ''<0.01 MB''
      else if the mb < 1 then toFixed numberToString 2 (the mb) @ '' MB''
      else if the mb < 1000 then toFixed numberToString 1 (the mb) @ '' MB''
      else toFixed numberToString 2 (the mb / 1024) @ '' GB'')"

definition formatPercent :: "(real \<Rightarrow> string) \<Rightarrow> real option \<Rightarrow> string" where
  "formatPercent numberToString v =
     (if v = None \<or> the v = 0 then ''-''
      else if the v < 0.01 then ''<0.01%''
      else toFixed numberToString 2 (the v) @ ''%'')"

section \<open>The parser on a report as JSON delivers it\<close>

text \<open>
  The report is read with \<open>JSON.parse(content) as T\<close>: its shape is not checked. In this
  second embedding of the parser a property of the JSON document may be missing or
  \<open>null\<close>, and an element of an array or a file of the files object may be \<open>null\<close>:
  \<open>'a property\<close> is what reading a property gives, \<open>Undefined\<close> when there is none. A read
  that throws is the error value \<open>TypeError\<close>. A value of another type than the declared
  one (a string for a number, say) is outside this embedding, and so is a line without a
  line number or a source text and a report without an elapsed time.
\<close>

datatype 'a property = Undefined | Null | Val (val: 'a)

datatype js_error = TypeError

record JsonLine =
  jl_lineno :: int
  jl_line :: string
  jl_n_cpu_percent_python :: "real property"
  jl_n_cpu_percent_c :: "real property"
  jl_n_sys_percent :: "real property"
  jl_n_core_utilization :: "real property"
  jl_cpu_samples_list :: "real list property"
  jl_n_malloc_mb :: "real property"
  jl_n_peak_mb :: "real property"
  jl_n_avg_mb :: "real property"
  jl_n_growth_mb :: "real property"
  jl_n_python_fraction :: "real property"
  jl_n_usage_fraction :: "real property"
  jl_n_copy_mb_s :: "real property"
  jl_n_mallocs :: "real property"
  jl_memory_samples :: "(real \<times> real) list property"
  jl_n_gpu_percent :: "real property"
  jl_n_gpu_peak_memory_mb :: "real property"
  jl_n_gpu_avg_memory_mb :: "real property"
  jl_start_region_line :: "real property"
  jl_end_region_line :: "real property"
  jl_start_outermost_loop :: "real property"
  jl_end_outermost_loop :: "real property"

record JsonFunction =
  jfn_name :: "string property"
  jfn_lineno :: "int property"
  jfn_n_cpu_percent_python :: "real property"
  jfn_n_cpu_percent_c :: "real property"
  jfn_n_sys_percent :: "real property"
  jfn_n_malloc_mb :: "real property"
  jfn_n_peak_mb :: "real property"
  jfn_n_growth_mb :: "real property"
  jfn_n_copy_mb_s :: "real property"

text \<open>An element of \<open>lines\<close> or of \<open>functions\<close> is an object or \<open>null\<close> (\<open>None\<close>).\<close>

record JsonFile =
  jf_lines :: "JsonLine option list property"
  jf_functions :: "JsonFunction option list property"
  jf_imports :: "string list property"
  jf_leaks :: "(string \<times> real) list property"

text \<open>A value of the files object is a file or \<open>null\<close> (\<open>None\<close>).\<close>

record JsonProfile =
  jp_alloc_samples :: "real property"
  jp_free_samples :: "real property"
  jp_args :: "string list property"
  jp_elapsed_time_sec :: real
  jp_entrypoint_dir :: "string property"
  jp_filename :: "string property"
  jp_files :: "(string \<times> JsonFile option) list property"
  jp_growth_rate :: "real property"

text \<open>The normalized profile; a metric that is copied keeps the state of its property.\<close>

record NormLine =
  nl_lineno :: int
  nl_code :: string
  nl_n_cpu_percent_python :: "real property"
  nl_n_cpu_percent_c :: "real property"
  nl_n_sys_percent :: "real property"
  nl_n_core_utilization :: "real property"
  nl_cpu_samples_count :: "real property"
  nl_n_malloc_mb :: "real property"
  nl_n_peak_mb :: "real property"
  nl_n_avg_mb :: "real property"
  nl_n_growth_mb :: "real property"
  nl_n_python_fraction :: "real property"
  nl_n_usage_fraction :: "real property"
  nl_n_copy_mb_s :: "real property"
  nl_n_mallocs :: "real property"
  nl_memory_samples_count :: "real property"
  nl_n_gpu_percent :: "real property"
  nl_n_gpu_peak_memory_mb :: "real property"
  nl_n_gpu_avg_memory_mb :: "real property"
  nl_leak_score :: "real property"

record NormFunction =
  nfn_name :: string
  nfn_lineno :: int
  nfn_n_cpu_percent_python :: "real property"
  nfn_n_cpu_percent_c :: "real property"
  nfn_n_sys_percent :: "real property"
  nfn_n_malloc_mb :: "real property"
  nfn_n_peak_mb :: "real property"
  nfn_n_growth_mb :: "real property"
  nfn_n_copy_mb_s :: "real property"

record NormFile =
  nf_lines :: "(int \<times> NormLine) list"
  nf_functions :: "NormFunction list"
  nf_leaks :: "(string \<times> real) list"

record NormProfile =
  np_program :: string
  np_args :: "string list"
  np_elapsed_time :: real
  np_entrypoint_dir :: string
  np_max_memory_mb :: real
  np_total_memory_growth_mb :: real
  np_growth_rate :: js_number
  np_total_cpu_percent_python :: real
  np_total_cpu_percent_c :: real
  np_total_sys_percent :: real
  np_alloc_samples :: real
  np_free_samples :: real
  np_files :: "(string \<times> NormFile) list"

subsection \<open>Reading a property\<close>

text \<open>Truthiness: \<open>undefined\<close>, \<open>null\<close>, \<open>0\<close> and the empty string are falsy.\<close>

definition truthy_num :: "real property \<Rightarrow> bool" where
  "truthy_num x = (case x of Val v \<Rightarrow> v \<noteq> 0 | _ \<Rightarrow> False)"

definition truthy_int :: "int property \<Rightarrow> bool" where
  "truthy_int x = (case x of Val v \<Rightarrow> v \<noteq> 0 | _ \<Rightarrow> False)"

definition truthy_str :: "string property \<Rightarrow> bool" where
  "truthy_str x = (case x of Val s \<Rightarrow> s \<noteq> [] | _ \<Rightarrow> False)"

text \<open>\<open>x || d\<close>.\<close>

definition or_num :: "real property \<Rightarrow> real \<Rightarrow> real" where
  "or_num x d = (if truthy_num x then val x else d)"

definition or_str :: "string property \<Rightarrow> string \<Rightarrow> string" where
  "or_str x d = (if truthy_str x then val x else d)"

text \<open>
  \<open>x < c\<close> for a number \<open>c\<close>: \<open>null\<close> is converted to \<open>0\<close>, \<open>undefined\<close> to \<open>NaN\<close>, which
  is below nothing.
\<close>

definition less_num :: "real property \<Rightarrow> real \<Rightarrow> bool" where
  "less_num x c = (case x of Undefined \<Rightarrow> False | Null \<Rightarrow> 0 < c | Val v \<Rightarrow> v < c)"

text \<open>\<open>xs?.length\<close> and \<open>xs?.[0]\<close>: \<open>undefined\<close> when \<open>xs\<close> is \<open>undefined\<close> or \<open>null\<close>.\<close>

definition chain_length :: "'a list property \<Rightarrow> real property" where
  "chain_length xs = (case xs of Val l \<Rightarrow> Val (real (length l)) | _ \<Rightarrow> Undefined)"

definition chain_first :: "'a list property \<Rightarrow> 'a property" where
  "chain_first xs = (case xs of Val (a # _) \<Rightarrow> Val a | _ \<Rightarrow> Undefined)"

subsection \<open>The parser\<close>

definition calculateLeakScore_json :: "JsonLine \<Rightarrow> (string \<times> real) list property \<Rightarrow> real" where
  "calculateLeakScore_json line lks =
     (let score = 0;
          score = (case lks of
                     Val m \<Rightarrow>
                       if truthy (map_of m (String_of_int (jl_lineno line)))
                       then score + the (map_of m (String_of_int (jl_lineno line)))
                       else score
                   | _ \<Rightarrow> score);
          score = (if truthy_num (jl_n_growth_mb line) \<and> val (jl_n_growth_mb line) > 0
                   then score + val (jl_n_growth_mb line) * 10 else score);
          score = (if truthy_num (jl_n_malloc_mb line) \<and> val (jl_n_malloc_mb line) > 0
                      \<and> truthy_num (jl_n_growth_mb line) \<and> val (jl_n_growth_mb line) > 0
                   then score + val (jl_n_malloc_mb line) * 5 else score);
          score = (if jl_n_usage_fraction line \<noteq> Undefined
                      \<and> less_num (jl_n_usage_fraction line) 0.3
                      \<and> truthy_num (jl_n_growth_mb line) \<and> val (jl_n_growth_mb line) > 0
                   then score + 20 else score)
      in score)"

definition parseScaleneLine_json :: "JsonLine \<Rightarrow> (string \<times> real) list property \<Rightarrow> NormLine" where
  "parseScaleneLine_json raw lks =
     (let leakScore = calculateLeakScore_json raw lks in
      \<lparr> nl_lineno = jl_lineno raw,
        nl_code = jl_line raw,
        nl_n_cpu_percent_python = jl_n_cpu_percent_python raw,
        nl_n_cpu_percent_c = jl_n_cpu_percent_c raw,
        nl_n_sys_percent = jl_n_sys_percent raw,
        nl_n_core_utilization = jl_n_core_utilization raw,
        nl_cpu_samples_count = Val (or_num (chain_length (jl_cpu_samples_list raw)) 0),
        nl_n_malloc_mb = jl_n_malloc_mb raw,
        nl_n_peak_mb = jl_n_peak_mb raw,
        nl_n_avg_mb = jl_n_avg_mb raw,
        nl_n_growth_mb = jl_n_growth_mb raw,
        nl_n_python_fraction = jl_n_python_fraction raw,
        nl_n_usage_fraction = jl_n_usage_fraction raw,
        nl_n_copy_mb_s = jl_n_copy_mb_s raw,
        nl_n_mallocs = jl_n_mallocs raw,
        nl_memory_samples_count = Val (or_num (chain_length (jl_memory_samples raw)) 0),
        nl_n_gpu_percent = jl_n_gpu_percent raw,
        nl_n_gpu_peak_memory_mb = jl_n_gpu_peak_memory_mb raw,
        nl_n_gpu_avg_memory_mb = jl_n_gpu_avg_memory_mb raw,
        nl_leak_score = Val leakScore \<rparr>)"

definition parseScaleneFunction_json :: "JsonFunction \<Rightarrow> NormFunction option" where
  "parseScaleneFunction_json raw =
     (if \<not> truthy_str (jfn_name raw) \<or> \<not> truthy_int (jfn_lineno raw)
      then None
      else Some
        \<lparr> nfn_name = val (jfn_name raw),
          nfn_lineno = val (jfn_lineno raw),
          nfn_n_cpu_percent_python = jfn_n_cpu_percent_python raw,
          nfn_n_cpu_percent_c = jfn_n_cpu_percent_c raw,
          nfn_n_sys_percent = jfn_n_sys_percent raw,
          nfn_n_malloc_mb = jfn_n_malloc_mb raw,
          nfn_n_peak_mb = jfn_n_peak_mb raw,
          nfn_n_growth_mb = jfn_n_growth_mb raw,
          nfn_n_copy_mb_s = jfn_n_copy_mb_s raw \<rparr>)"

text \<open>
  The loop over \<open>raw.lines\<close>: reading \<open>line.lineno\<close> of a \<open>null\<close> element throws. The map
  over \<open>raw.functions\<close>: reading \<open>raw.name\<close> of a \<open>null\<close> element throws.
\<close>

fun lines_loop ::
  "(string \<times> real) list property \<Rightarrow> (int \<times> NormLine) list \<Rightarrow> JsonLine option list
     \<Rightarrow> js_error + (int \<times> NormLine) list" where
  "lines_loop lks ls [] = Inr ls"
| "lines_loop lks ls (None # rest) = Inl TypeError"
| "lines_loop lks ls (Some line # rest) =
     lines_loop lks (obj_set (jl_lineno line) (parseScaleneLine_json line lks) ls) rest"

fun functions_map :: "JsonFunction option list \<Rightarrow> js_error + NormFunction option list" where
  "functions_map [] = Inr []"
| "functions_map (None # rest) = Inl TypeError"
| "functions_map (Some f # rest) =
     (case functions_map rest of
        Inl e \<Rightarrow> Inl e
      | Inr fs \<Rightarrow> Inr (parseScaleneFunction_json f # fs))"

text \<open>
  A file: reading \<open>raw.lines\<close> of \<open>null\<close> throws; iterating over \<open>undefined\<close> or \<open>null\<close>
  throws, and so does calling \<open>map\<close> on them.
\<close>

definition parseScaleneFile_json :: "JsonFile option \<Rightarrow> js_error + NormFile" where
  "parseScaleneFile_json raw0 =
     (case raw0 of
        None \<Rightarrow> Inl TypeError
      | Some raw \<Rightarrow>
          (case jf_lines raw of
             Val rawLines \<Rightarrow>
               (case lines_loop (jf_leaks raw) [] rawLines of
                  Inl e \<Rightarrow> Inl e
                | Inr ls \<Rightarrow>
                    (case jf_functions raw of
                       Val rawFunctions \<Rightarrow>
                         (case functions_map rawFunctions of
                            Inl e \<Rightarrow> Inl e
                          | Inr fs \<Rightarrow>
                              Inr \<lparr> nf_lines = ls,
                                    nf_functions = map the (filter (\<lambda>f. f \<noteq> None) fs),
                                    nf_leaks = (case jf_leaks raw of Val m \<Rightarrow> m | _ \<Rightarrow> []) \<rparr>)
                     | _ \<Rightarrow> Inl TypeError))
           | _ \<Rightarrow> Inl TypeError))"

record json_state =
  jst_maxMemoryMb :: real
  jst_totalMemoryGrowthMb :: real
  jst_totalCpuPython :: real
  jst_totalCpuC :: real
  jst_totalSys :: real
  jst_files :: "(string \<times> NormFile) list"

definition aggregate_line_json :: "json_state \<Rightarrow> NormLine \<Rightarrow> json_state" where
  "aggregate_line_json st lineData =
     (let st = (if truthy_num (nl_n_peak_mb lineData)
                   \<and> val (nl_n_peak_mb lineData) > jst_maxMemoryMb st
                then st\<lparr>jst_maxMemoryMb := val (nl_n_peak_mb lineData)\<rparr> else st);
          st = (if truthy_num (nl_n_growth_mb lineData)
                then st\<lparr>jst_totalMemoryGrowthMb :=
                          jst_totalMemoryGrowthMb st + val (nl_n_growth_mb lineData)\<rparr> else st);
          st = (if truthy_num (nl_n_cpu_percent_python lineData)
                then st\<lparr>jst_totalCpuPython :=
                          jst_totalCpuPython st + val (nl_n_cpu_percent_python lineData)\<rparr>
                else st);
          st = (if truthy_num (nl_n_cpu_percent_c lineData)
                then st\<lparr>jst_totalCpuC :=
                          jst_totalCpuC st + val (nl_n_cpu_percent_c lineData)\<rparr> else st);
          st = (if truthy_num (nl_n_sys_percent lineData)
                then st\<lparr>jst_totalSys := jst_totalSys st + val (nl_n_sys_percent lineData)\<rparr>
                else st)
      in st)"

text \<open>The loop over the entries of \<open>raw.files\<close>.\<close>

fun files_loop ::
  "json_state \<Rightarrow> (string \<times> JsonFile option) list \<Rightarrow> js_error + json_state" where
  "files_loop st [] = Inr st"
| "files_loop st (entry # rest) =
     (case parseScaleneFile_json (snd entry) of
        Inl e \<Rightarrow> Inl e
      | Inr normalizedFile \<Rightarrow>
          files_loop
            (foldl aggregate_line_json
               (st\<lparr>jst_files := obj_set (fst entry) normalizedFile (jst_files st)\<rparr>)
               (Object_values (nf_lines normalizedFile)))
            rest)"

definition initial_state_json :: json_state where
  "initial_state_json =
     \<lparr> jst_maxMemoryMb = 0, jst_totalMemoryGrowthMb = 0, jst_totalCpuPython = 0,
       jst_totalCpuC = 0, jst_totalSys = 0, jst_files = [] \<rparr>"

text \<open>The growth rate and the \<open>return\<close> statement, from the state that the loops leave.\<close>

definition build_profile :: "JsonProfile \<Rightarrow> json_state \<Rightarrow> NormProfile" where
  "build_profile raw st =
     (let growthRate =
            (if jst_maxMemoryMb st > 0
             then js_times (js_div (jst_totalMemoryGrowthMb st) (jst_maxMemoryMb st)) 100
             else Finite 0)
      in \<lparr> np_program =
             or_str (chain_first (jp_args raw)) (or_str (jp_filename raw) ''Unknown''),
           np_args = (case jp_args raw of Val a \<Rightarrow> a | _ \<Rightarrow> []),
           np_elapsed_time = jp_elapsed_time_sec raw,
           np_entrypoint_dir = or_str (jp_entrypoint_dir raw) [],
           np_max_memory_mb = jst_maxMemoryMb st,
           np_total_memory_growth_mb = jst_totalMemoryGrowthMb st,
           np_growth_rate = growthRate,
           np_total_cpu_percent_python = jst_totalCpuPython st,
           np_total_cpu_percent_c = jst_totalCpuC st,
           np_total_sys_percent = jst_totalSys st,
           np_alloc_samples = or_num (jp_alloc_samples raw) 0,
           np_free_samples = or_num (jp_free_samples raw) 0,
           np_files = jst_files st \<rparr>)"

text \<open>\<open>Object.entries\<close> of \<open>undefined\<close> or \<open>null\<close> throws.\<close>

definition parseScaleneProfile_json :: "JsonProfile \<Rightarrow> js_error + NormProfile" where
  "parseScaleneProfile_json raw =
     (case jp_files raw of
        Val entries \<Rightarrow>
          (case files_loop initial_state_json entries of
             Inl e \<Rightarrow> Inl e
           | Inr st \<Rightarrow> Inr (build_profile raw st))
      | _ \<Rightarrow> Inl TypeError)"

subsection \<open>Reports that match the schema\<close>

definition file_matches :: "JsonFile option \<Rightarrow> bool" where
  "file_matches f0 =
     (case f0 of
        None \<Rightarrow> False
      | Some f \<Rightarrow>
          (case jf_lines f of Val ls \<Rightarrow> list_all (\<lambda>l. l \<noteq> None) ls | _ \<Rightarrow> False)
          \<and> (case jf_functions f of Val fs \<Rightarrow> list_all (\<lambda>g. g \<noteq> None) fs | _ \<Rightarrow> False))"

definition matches_schema :: "JsonProfile \<Rightarrow> bool" where
  "matches_schema raw =
     (case jp_files raw of
        Val entries \<Rightarrow> list_all (\<lambda>entry. file_matches (snd entry)) entries
      | _ \<Rightarrow> False)"

section \<open>Reference definitions and example inputs\<close>

text \<open>
  The weight that the leak map of a file stores for a line: the entry under the string
  form of the line number, when the map and the entry exist.
\<close>

definition leak_weight :: "RawScaleneLine \<Rightarrow> (string \<times> real) list option \<Rightarrow> real option" where
  "leak_weight line lks =
     (case lks of None \<Rightarrow> None | Some m \<Rightarrow> map_of m (String_of_int (rl_lineno line)))"

text \<open>
  The leak score as the design document words it: a sum of four independent terms, each
  present only under its own condition.
\<close>

definition leakScore_spec :: "RawScaleneLine \<Rightarrow> (string \<times> real) list option \<Rightarrow> real" where
  "leakScore_spec line lks =
     (case leak_weight line lks of None \<Rightarrow> 0 | Some w \<Rightarrow> w)
     + (case rl_n_growth_mb line of
          None \<Rightarrow> 0
        | Some g \<Rightarrow> if g > 0 then g * 10 else 0)
     + (case rl_n_malloc_mb line of
          None \<Rightarrow> 0
        | Some a \<Rightarrow>
            (case rl_n_growth_mb line of
               None \<Rightarrow> 0
             | Some g \<Rightarrow> if a > 0 \<and> g > 0 then a * 5 else 0))
     + (case rl_n_usage_fraction line of
          None \<Rightarrow> 0
        | Some u \<Rightarrow>
            (case rl_n_growth_mb line of
               None \<Rightarrow> 0
             | Some g \<Rightarrow> if u < 0.3 \<and> g > 0 then 20 else 0))"

text \<open>A raw line with a number and a source text and no metric at all.\<close>

definition bare_line :: "int \<Rightarrow> string \<Rightarrow> RawScaleneLine" where
  "bare_line n src =
     \<lparr> rl_lineno = n, rl_line = src,
       rl_n_cpu_percent_python = None, rl_n_cpu_percent_c = None, rl_n_sys_percent = None,
       rl_n_core_utilization = None, rl_cpu_samples_list = None,
       rl_n_malloc_mb = None, rl_n_peak_mb = None, rl_n_avg_mb = None, rl_n_growth_mb = None,
       rl_n_python_fraction = None, rl_n_usage_fraction = None, rl_n_copy_mb_s = None,
       rl_n_mallocs = None, rl_memory_samples = None, rl_n_gpu_percent = None,
       rl_n_gpu_peak_memory_mb = None, rl_n_gpu_avg_memory_mb = None,
       rl_start_region_line = None, rl_end_region_line = None,
       rl_start_outermost_loop = None, rl_end_outermost_loop = None \<rparr>"

definition ex_line10 :: RawScaleneLine where
  "ex_line10 = (bare_line 10 ''xs.append(buf)'')
     \<lparr> rl_n_growth_mb := Some 5, rl_n_usage_fraction := Some 0.1, rl_n_malloc_mb := Some 2 \<rparr>"

definition ex_line20 :: RawScaleneLine where
  "ex_line20 = bare_line 20 ''pass''"

text \<open>
  The normalized lines that the aggregation loop of \<open>parseScaleneProfile\<close> visits, file
  after file; the peaks that these lines carry; the lines of the raw report.
\<close>

definition normalized_lines :: "RawScaleneProfile \<Rightarrow> ScaleneLineData list" where
  "normalized_lines raw =
     concat (map (\<lambda>entry. Object_values (lines (parseScaleneFile (snd entry)))) (rp_files raw))"

definition peaks :: "RawScaleneProfile \<Rightarrow> real list" where
  "peaks raw = List.map_filter n_peak_mb (normalized_lines raw)"

definition raw_lines_of :: "RawScaleneProfile \<Rightarrow> RawScaleneLine list" where
  "raw_lines_of raw = concat (map (\<lambda>entry. rf_lines (snd entry)) (rp_files raw))"

text \<open>The lines of a normalized profile, as the viewer enumerates them.\<close>

definition profile_lines :: "ScaleneProfile \<Rightarrow> ScaleneLineData list" where
  "profile_lines p = concat (map (\<lambda>entry. Object_values (lines (snd entry))) (files p))"

text \<open>What one iteration of the inner loop does to the running maximum.\<close>

definition max_step :: "real \<Rightarrow> ScaleneLineData \<Rightarrow> real" where
  "max_step m l = (case n_peak_mb l of None \<Rightarrow> m | Some p \<Rightarrow> if p \<noteq> 0 \<and> p > m then p else m)"

text \<open>Raw reports for the examples: no metadata, files that hold lines only.\<close>

definition bare_raw_profile :: "(string \<times> RawScaleneFile) list \<Rightarrow> RawScaleneProfile" where
  "bare_raw_profile fs =
     \<lparr> rp_alloc_samples = None, rp_free_samples = None, rp_args = None,
       rp_elapsed_time_sec = 1.5, rp_entrypoint_dir = None, rp_filename = None,
       rp_files = fs, rp_growth_rate = None \<rparr>"

definition lines_file :: "RawScaleneLine list \<Rightarrow> RawScaleneFile" where
  "lines_file ls = \<lparr> rf_lines = ls, rf_functions = [], rf_imports = None, rf_leaks = None \<rparr>"

definition bare_function :: "string option \<Rightarrow> int option \<Rightarrow> RawScaleneFunction" where
  "bare_function nm lno =
     \<lparr> rfn_name = nm, rfn_lineno = lno, rfn_n_cpu_percent_python = None,
       rfn_n_cpu_percent_c = None, rfn_n_sys_percent = None, rfn_n_malloc_mb = None,
       rfn_n_peak_mb = None, rfn_n_growth_mb = None, rfn_n_copy_mb_s = None \<rparr>"

definition ex_two_files :: RawScaleneProfile where
  "ex_two_files = bare_raw_profile
     [(''a.py'', lines_file [(bare_line 1 ''a = load()'')\<lparr>rl_n_peak_mb := Some 100, rl_n_growth_mb := Some 30\<rparr>]),
      (''b.py'', lines_file [(bare_line 1 ''b = load()'')\<lparr>rl_n_peak_mb := Some 200, rl_n_growth_mb := Some 20\<rparr>])]"


definition ex_neg_peak :: RawScaleneProfile where
  "ex_neg_peak = bare_raw_profile
     [(''main.py'', lines_file [(bare_line 3 ''del xs'')\<lparr>rl_n_peak_mb := Some (- 3)\<rparr>, ex_line20])]"


text \<open>A file that reports the same line number twice.\<close>

definition ex_duplicate :: RawScaleneProfile where
  "ex_duplicate = bare_raw_profile
     [(''main.py'', lines_file [(bare_line 1 ''a = load()'')\<lparr>rl_n_peak_mb := Some 300\<rparr>,
                                (bare_line 1 ''a = load()'')\<lparr>rl_n_peak_mb := Some 100\<rparr>])]"

text \<open>
  A stand-in for the conversion of a number to a string, for the examples of the
  formatters: none of them reaches \<open>10^21\<close>, so none of them calls it.
\<close>

definition ex_numberToString :: "real \<Rightarrow> string" where
  "ex_numberToString x = ''1e+21''"

subsection \<open>Reference definitions for the parser on JSON reports\<close>

text \<open>
  The leak score of a line of a JSON report in the words of the design document, with
  what the code does for \<open>null\<close>: a \<open>null\<close> growth or allocation adds nothing, a \<open>null\<close>
  usage fraction is compared as the number 0.
\<close>

definition leak_weight_json :: "JsonLine \<Rightarrow> (string \<times> real) list property \<Rightarrow> real option" where
  "leak_weight_json line lks =
     (case lks of Val m \<Rightarrow> map_of m (String_of_int (jl_lineno line)) | _ \<Rightarrow> None)"

text \<open>A property that is missing or \<open>null\<close>.\<close>

definition absent :: "'a property \<Rightarrow> bool" where
  "absent x = (case x of Val v \<Rightarrow> False | _ \<Rightarrow> True)"

definition positive :: "real property \<Rightarrow> bool" where
  "positive x = (case x of Val v \<Rightarrow> 0 < v | _ \<Rightarrow> False)"

definition leakScore_json_spec :: "JsonLine \<Rightarrow> (string \<times> real) list property \<Rightarrow> real" where
  "leakScore_json_spec line lks =
     (case leak_weight_json line lks of None \<Rightarrow> 0 | Some w \<Rightarrow> w)
     + (case jl_n_growth_mb line of Val g \<Rightarrow> if 0 < g then g * 10 else 0 | _ \<Rightarrow> 0)
     + (case jl_n_malloc_mb line of
          Val a \<Rightarrow> if 0 < a \<and> positive (jl_n_growth_mb line) then a * 5 else 0
        | _ \<Rightarrow> 0)
     + (case jl_n_usage_fraction line of
          Undefined \<Rightarrow> 0
        | Null \<Rightarrow> if positive (jl_n_growth_mb line) then 20 else 0
        | Val u \<Rightarrow> if u < 0.3 \<and> positive (jl_n_growth_mb line) then 20 else 0)"

text \<open>Example JSON reports: lines, a file and reports with \<open>null\<close> properties.\<close>

definition bare_json_line :: "int \<Rightarrow> string \<Rightarrow> JsonLine" where
  "bare_json_line n src =
     \<lparr> jl_lineno = n, jl_line = src,
       jl_n_cpu_percent_python = Undefined, jl_n_cpu_percent_c = Undefined,
       jl_n_sys_percent = Undefined, jl_n_core_utilization = Undefined,
       jl_cpu_samples_list = Undefined, jl_n_malloc_mb = Undefined, jl_n_peak_mb = Undefined,
       jl_n_avg_mb = Undefined, jl_n_growth_mb = Undefined, jl_n_python_fraction = Undefined,
       jl_n_usage_fraction = Undefined, jl_n_copy_mb_s = Undefined, jl_n_mallocs = Undefined,
       jl_memory_samples = Undefined, jl_n_gpu_percent = Undefined,
       jl_n_gpu_peak_memory_mb = Undefined, jl_n_gpu_avg_memory_mb = Undefined,
       jl_start_region_line = Undefined, jl_end_region_line = Undefined,
       jl_start_outermost_loop = Undefined, jl_end_outermost_loop = Undefined \<rparr>"

definition ex_growing :: JsonLine where
  "ex_growing = (bare_json_line 10 ''xs.append(buf)'')\<lparr>jl_n_growth_mb := Val 5\<rparr>"

definition ex_nulls_line :: JsonLine where
  "ex_nulls_line = (bare_json_line 10 ''xs.append(buf)'')
     \<lparr> jl_n_growth_mb := Val 5, jl_n_malloc_mb := Null, jl_n_peak_mb := Null,
       jl_cpu_samples_list := Null \<rparr>"

definition ex_null_name :: JsonFunction where
  "ex_null_name =
     \<lparr> jfn_name = Null, jfn_lineno = Val 7, jfn_n_cpu_percent_python = Undefined,
       jfn_n_cpu_percent_c = Undefined, jfn_n_sys_percent = Undefined,
       jfn_n_malloc_mb = Undefined, jfn_n_peak_mb = Undefined, jfn_n_growth_mb = Undefined,
       jfn_n_copy_mb_s = Undefined \<rparr>"

definition ex_nulls_file :: JsonFile where
  "ex_nulls_file =
     \<lparr> jf_lines = Val [Some ex_nulls_line], jf_functions = Val [], jf_imports = Undefined,
       jf_leaks = Null \<rparr>"

definition ex_nulls_report :: JsonProfile where
  "ex_nulls_report =
     \<lparr> jp_alloc_samples = Null, jp_free_samples = Undefined, jp_args = Null,
       jp_elapsed_time_sec = 1.5, jp_entrypoint_dir = Null, jp_filename = Undefined,
       jp_files = Val [(''main.py'', Some ex_nulls_file)], jp_growth_rate = Undefined \<rparr>"

definition ex_no_functions :: JsonProfile where
  "ex_no_functions = ex_nulls_report
     \<lparr> jp_files := Val [(''main.py'', Some (ex_nulls_file\<lparr>jf_functions := Undefined\<rparr>))] \<rparr>"

definition ex_no_files :: JsonProfile where
  "ex_no_files = ex_nulls_report\<lparr>jp_files := Val []\<rparr>"

text \<open>
  A report of the declared types, as a JSON report: an optional property that is not
  there is \<open>Undefined\<close>, every other one holds its value, and nothing is \<open>null\<close>. The
  same for the normalized profile.
\<close>

definition prop_of :: "'a option \<Rightarrow> 'a property" where
  "prop_of x = (case x of None \<Rightarrow> Undefined | Some v \<Rightarrow> Val v)"

definition json_line :: "RawScaleneLine \<Rightarrow> JsonLine" where
  "json_line r =
     \<lparr> jl_lineno = rl_lineno r, jl_line = rl_line r,
       jl_n_cpu_percent_python = prop_of (rl_n_cpu_percent_python r),
       jl_n_cpu_percent_c = prop_of (rl_n_cpu_percent_c r),
       jl_n_sys_percent = prop_of (rl_n_sys_percent r),
       jl_n_core_utilization = prop_of (rl_n_core_utilization r),
       jl_cpu_samples_list = prop_of (rl_cpu_samples_list r),
       jl_n_malloc_mb = prop_of (rl_n_malloc_mb r),
       jl_n_peak_mb = prop_of (rl_n_peak_mb r),
       jl_n_avg_mb = prop_of (rl_n_avg_mb r),
       jl_n_growth_mb = prop_of (rl_n_growth_mb r),
       jl_n_python_fraction = prop_of (rl_n_python_fraction r),
       jl_n_usage_fraction = prop_of (rl_n_usage_fraction r),
       jl_n_copy_mb_s = prop_of (rl_n_copy_mb_s r),
       jl_n_mallocs = prop_of (rl_n_mallocs r),
       jl_memory_samples = prop_of (rl_memory_samples r),
       jl_n_gpu_percent = prop_of (rl_n_gpu_percent r),
       jl_n_gpu_peak_memory_mb = prop_of (rl_n_gpu_peak_memory_mb r),
       jl_n_gpu_avg_memory_mb = prop_of (rl_n_gpu_avg_memory_mb r),
       jl_start_region_line = prop_of (rl_start_region_line r),
       jl_end_region_line = prop_of (rl_end_region_line r),
       jl_start_outermost_loop = prop_of (rl_start_outermost_loop r),
       jl_end_outermost_loop = prop_of (rl_end_outermost_loop r) \<rparr>"

definition json_function :: "RawScaleneFunction \<Rightarrow> JsonFunction" where
  "json_function r =
     \<lparr> jfn_name = prop_of (rfn_name r), jfn_lineno = prop_of (rfn_lineno r),
       jfn_n_cpu_percent_python = prop_of (rfn_n_cpu_percent_python r),
       jfn_n_cpu_percent_c = prop_of (rfn_n_cpu_percent_c r),
       jfn_n_sys_percent = prop_of (rfn_n_sys_percent r),
       jfn_n_malloc_mb = prop_of (rfn_n_malloc_mb r),
       jfn_n_peak_mb = prop_of (rfn_n_peak_mb r),
       jfn_n_growth_mb = prop_of (rfn_n_growth_mb r),
       jfn_n_copy_mb_s = prop_of (rfn_n_copy_mb_s r) \<rparr>"

definition json_file :: "RawScaleneFile \<Rightarrow> JsonFile" where
  "json_file r =
     \<lparr> jf_lines = Val (map (\<lambda>l. Some (json_line l)) (rf_lines r)),
       jf_functions = Val (map (\<lambda>g. Some (json_function g)) (rf_functions r)),
       jf_imports = prop_of (rf_imports r),
       jf_leaks = prop_of (rf_leaks r) \<rparr>"

definition json_profile :: "RawScaleneProfile \<Rightarrow> JsonProfile" where
  "json_profile r =
     \<lparr> jp_alloc_samples = prop_of (rp_alloc_samples r),
       jp_free_samples = prop_of (rp_free_samples r),
       jp_args = prop_of (rp_args r),
       jp_elapsed_time_sec = rp_elapsed_time_sec r,
       jp_entrypoint_dir = prop_of (rp_entrypoint_dir r),
       jp_filename = prop_of (rp_filename r),
       jp_files = Val (map (\<lambda>e. (fst e, Some (json_file (snd e)))) (rp_files r)),
       jp_growth_rate = prop_of (rp_growth_rate r) \<rparr>"

definition norm_line :: "ScaleneLineData \<Rightarrow> NormLine" where
  "norm_line d =
     \<lparr> nl_lineno = lineno d, nl_code = code d,
       nl_n_cpu_percent_python = prop_of (n_cpu_percent_python d),
       nl_n_cpu_percent_c = prop_of (n_cpu_percent_c d),
       nl_n_sys_percent = prop_of (n_sys_percent d),
       nl_n_core_utilization = prop_of (n_core_utilization d),
       nl_cpu_samples_count = prop_of (cpu_samples_count d),
       nl_n_malloc_mb = prop_of (n_malloc_mb d),
       nl_n_peak_mb = prop_of (n_peak_mb d),
       nl_n_avg_mb = prop_of (n_avg_mb d),
       nl_n_growth_mb = prop_of (n_growth_mb d),
       nl_n_python_fraction = prop_of (n_python_fraction d),
       nl_n_usage_fraction = prop_of (n_usage_fraction d),
       nl_n_copy_mb_s = prop_of (n_copy_mb_s d),
       nl_n_mallocs = prop_of (n_mallocs d),
       nl_memory_samples_count = prop_of (memory_samples_count d),
       nl_n_gpu_percent = prop_of (n_gpu_percent d),
       nl_n_gpu_peak_memory_mb = prop_of (n_gpu_peak_memory_mb d),
       nl_n_gpu_avg_memory_mb = prop_of (n_gpu_avg_memory_mb d),
       nl_leak_score = prop_of (leak_score d) \<rparr>"

definition norm_function :: "ScaleneFunction \<Rightarrow> NormFunction" where
  "norm_function d =
     \<lparr> nfn_name = fn_name d, nfn_lineno = fn_lineno d,
       nfn_n_cpu_percent_python = prop_of (fn_n_cpu_percent_python d),
       nfn_n_cpu_percent_c = prop_of (fn_n_cpu_percent_c d),
       nfn_n_sys_percent = prop_of (fn_n_sys_percent d),
       nfn_n_malloc_mb = prop_of (fn_n_malloc_mb d),
       nfn_n_peak_mb = prop_of (fn_n_peak_mb d),
       nfn_n_growth_mb = prop_of (fn_n_growth_mb d),
       nfn_n_copy_mb_s = prop_of (fn_n_copy_mb_s d) \<rparr>"

definition norm_file :: "ScaleneFileData \<Rightarrow> NormFile" where
  "norm_file d =
     \<lparr> nf_lines = map (\<lambda>e. (fst e, norm_line (snd e))) (lines d),
       nf_functions = map norm_function (file_functions d),
       nf_leaks = leaks d \<rparr>"

definition norm_profile :: "ScaleneProfile \<Rightarrow> NormProfile" where
  "norm_profile d =
     \<lparr> np_program = program d, np_args = args d, np_elapsed_time = elapsed_time d,
       np_entrypoint_dir = entrypoint_dir d, np_max_memory_mb = max_memory_mb d,
       np_total_memory_growth_mb = total_memory_growth_mb d,
       np_growth_rate = growth_rate d,
       np_total_cpu_percent_python = total_cpu_percent_python d,
       np_total_cpu_percent_c = total_cpu_percent_c d,
       np_total_sys_percent = total_sys_percent d,
       np_alloc_samples = alloc_samples d, np_free_samples = free_samples d,
       np_files = map (\<lambda>e. (fst e, norm_file (snd e))) (files d) \<rparr>"

definition norm_state :: "parse_state \<Rightarrow> json_state" where
  "norm_state st =
     \<lparr> jst_maxMemoryMb = maxMemoryMb st, jst_totalMemoryGrowthMb = totalMemoryGrowthMb st,
       jst_totalCpuPython = totalCpuPython st, jst_totalCpuC = totalCpuC st,
       jst_totalSys = totalSys st,
       jst_files = map (\<lambda>e. (fst e, norm_file (snd e))) (st_files st) \<rparr>"

text \<open>What one iteration of the loop over the files does to the state, when the file is read.\<close>

definition file_step :: "json_state \<Rightarrow> string \<times> JsonFile option \<Rightarrow> json_state" where
  "file_step st entry =
     foldl aggregate_line_json
       (st\<lparr>jst_files :=
             obj_set (fst entry) (projr (parseScaleneFile_json (snd entry))) (jst_files st)\<rparr>)
       (Object_values (nf_lines (projr (parseScaleneFile_json (snd entry)))))"

section \<open>Properties of the leak score\<close>

lemma String_of_int_10: "String_of_int 10 = ''10''"
  by (simp add: String_of_int_def nat_digits.simps digit_char_def)

lemma String_of_int_20: "String_of_int 20 = ''20''"
  by (simp add: String_of_int_def nat_digits.simps digit_char_def)

lemma calculateLeakScore_eq: "calculateLeakScore line lks = leakScore_spec line lks"
  by (simp add: calculateLeakScore_def leakScore_spec_def leak_weight_def truthy_def
      split: option.splits)

text \<open>
  Claim C1. The leak score that the line normalizer stores is the sum of the weight of
  the line in the leak map (when there is one), ten times the growth when the growth is
  positive, five times the allocation when allocation and growth are both positive, and
  20 when the usage fraction is below 0.3 and the growth is positive. A line with growth
  5, usage fraction 0.1, allocation 2 and no weight scores 80; a line with no memory
  field and no weight scores 0.
\<close>

theorem leak_score_formula:
  "leak_score (parseScaleneLine line lks) = Some (leakScore_spec line lks)
   \<and> (rl_n_growth_mb line = Some 5 \<and> rl_n_usage_fraction line = Some 0.1
        \<and> rl_n_malloc_mb line = Some 2 \<and> leak_weight line lks = None
      \<longrightarrow> leak_score (parseScaleneLine line lks) = Some 80)
   \<and> (rl_n_growth_mb line = None \<and> rl_n_usage_fraction line = None
        \<and> rl_n_malloc_mb line = None \<and> leak_weight line lks = None
      \<longrightarrow> leak_score (parseScaleneLine line lks) = Some 0)"
  by (simp add: parseScaleneLine_def calculateLeakScore_eq leakScore_spec_def
      split: option.splits)

theorem leak_score_formula_witness:
  "leak_score (parseScaleneLine ex_line10 None) = Some 80
   \<and> leak_score (parseScaleneLine ex_line20 (Some [(''10'', 7)])) = Some 0"
proof -
  have h10: "rl_n_growth_mb ex_line10 = Some 5 \<and> rl_n_usage_fraction ex_line10 = Some 0.1
      \<and> rl_n_malloc_mb ex_line10 = Some 2 \<and> leak_weight ex_line10 None = None"
    by (simp add: ex_line10_def bare_line_def leak_weight_def)
  have h20: "rl_n_growth_mb ex_line20 = None \<and> rl_n_usage_fraction ex_line20 = None
      \<and> rl_n_malloc_mb ex_line20 = None \<and> leak_weight ex_line20 (Some [(''10'', 7)]) = None"
    by (simp add: ex_line20_def bare_line_def leak_weight_def String_of_int_20)
  from h10 leak_score_formula [of ex_line10 None]
  have "leak_score (parseScaleneLine ex_line10 None) = Some 80" by blast
  moreover from h20 leak_score_formula [of ex_line20 "Some [(''10'', 7)]"]
  have "leak_score (parseScaleneLine ex_line20 (Some [(''10'', 7)])) = Some 0" by blast
  ultimately show ?thesis by simp
qed

text \<open>
  Claim C2 says that the leak score is never negative, whatever the weights of the leak
  map. The score adds the weight as it is: a line without metrics whose weight is \<open>-5\<close>
  scores \<open>-5\<close>.
\<close>

theorem leak_score_negative_counterexample:
  "leak_score (parseScaleneLine ex_line20 (Some [(''20'', - 5)])) = Some (- 5)
   \<and> \<not> (0::real) \<le> - 5"
  by (simp add: parseScaleneLine_def calculateLeakScore_def truthy_def ex_line20_def
      bare_line_def String_of_int_20)

text \<open>
  Claim C2, amended. When the leak map stores no weight for the line, or a weight that is
  not negative, the leak score is not negative, whatever the signs of the metrics of the
  line.
\<close>

theorem leak_score_nonneg:
  "(case leak_weight line lks of None \<Rightarrow> True | Some w \<Rightarrow> 0 \<le> w)
   \<Longrightarrow> \<exists>s. leak_score (parseScaleneLine line lks) = Some s \<and> 0 \<le> s"
  by (auto simp add: parseScaleneLine_def calculateLeakScore_eq leakScore_spec_def
      split: option.splits)

theorem leak_score_nonneg_witness:
  "(case leak_weight ex_line10 (Some [(''10'', 3)]) of None \<Rightarrow> True | Some w \<Rightarrow> 0 \<le> w)
   \<and> (\<exists>s. leak_score (parseScaleneLine ex_line10 (Some [(''10'', 3)])) = Some s \<and> 0 \<le> s)"
proof -
  have h: "case leak_weight ex_line10 (Some [(''10'', 3)]) of None \<Rightarrow> True | Some w \<Rightarrow> 0 \<le> w"
    by (simp add: ex_line10_def bare_line_def leak_weight_def String_of_int_10)
  show ?thesis using h leak_score_nonneg [OF h] by simp
qed

text \<open>
  Claim C8. Of two raw lines that differ only in their growth, both growths positive,
  the one with the larger growth has a leak score at least as large, under the same leak
  map.
\<close>

theorem leak_score_mono_growth:
  "0 < g1 \<Longrightarrow> g1 < g2 \<Longrightarrow>
   the (leak_score (parseScaleneLine (line\<lparr>rl_n_growth_mb := Some g1\<rparr>) lks))
     \<le> the (leak_score (parseScaleneLine (line\<lparr>rl_n_growth_mb := Some g2\<rparr>) lks))"
  by (simp add: parseScaleneLine_def calculateLeakScore_eq leakScore_spec_def leak_weight_def
      split: option.splits)

theorem leak_score_mono_growth_witness:
  "(0::real) < 5 \<and> (5::real) < 6
   \<and> leak_score (parseScaleneLine (ex_line10\<lparr>rl_n_growth_mb := Some 5\<rparr>) None) = Some 80
   \<and> leak_score (parseScaleneLine (ex_line10\<lparr>rl_n_growth_mb := Some 6\<rparr>) None) = Some 90
   \<and> the (leak_score (parseScaleneLine (ex_line10\<lparr>rl_n_growth_mb := Some 5\<rparr>) None))
       \<le> the (leak_score (parseScaleneLine (ex_line10\<lparr>rl_n_growth_mb := Some 6\<rparr>) None))"
proof -
  have a: "(0::real) < 5" and b: "(5::real) < 6" by simp_all
  have c: "leak_score (parseScaleneLine (ex_line10\<lparr>rl_n_growth_mb := Some 5\<rparr>) None) = Some 80"
    by (simp add: parseScaleneLine_def calculateLeakScore_def truthy_def ex_line10_def
        bare_line_def)
  have d: "leak_score (parseScaleneLine (ex_line10\<lparr>rl_n_growth_mb := Some 6\<rparr>) None) = Some 90"
    by (simp add: parseScaleneLine_def calculateLeakScore_def truthy_def ex_line10_def
        bare_line_def)
  from a b c d leak_score_mono_growth [OF a b, of ex_line10 None] show ?thesis by blast
qed

section \<open>The leak classifier\<close>

text \<open>
  Claim C3. A line is classified as a leak exactly when its leak score, 0 when the line
  has none, is strictly greater than the threshold, 50 when none is given. A score equal
  to the threshold is not a leak; a score above the threshold by any positive amount is.
\<close>

theorem isLikelyLeak_iff:
  "(isLikelyLeak line threshold \<longleftrightarrow>
      (case leak_score line of None \<Rightarrow> 0 | Some s \<Rightarrow> s)
        > (case threshold of None \<Rightarrow> 50 | Some t \<Rightarrow> t))
   \<and> (leak_score line = Some t \<longrightarrow> \<not> isLikelyLeak line (Some t))
   \<and> (0 < e \<and> leak_score line = Some (t + e) \<longrightarrow> isLikelyLeak line (Some t))"
  by (auto simp add: isLikelyLeak_def num_or_def split: option.splits)

theorem isLikelyLeak_iff_witness:
  "isLikelyLeak (parseScaleneLine ex_line10 None) None
   \<and> \<not> isLikelyLeak (parseScaleneLine ex_line20 None) None
   \<and> \<not> isLikelyLeak (parseScaleneLine ex_line10 None) (Some 80)
   \<and> isLikelyLeak (parseScaleneLine ex_line10 None) (Some 79)"
proof -
  have s10: "leak_score (parseScaleneLine ex_line10 None) = Some 80"
    by (simp add: parseScaleneLine_def calculateLeakScore_def truthy_def ex_line10_def
        bare_line_def)
  have s20: "leak_score (parseScaleneLine ex_line20 None) = Some 0"
    by (simp add: parseScaleneLine_def calculateLeakScore_def truthy_def ex_line20_def
        bare_line_def)
  have s10': "(0::real) < 1 \<and> leak_score (parseScaleneLine ex_line10 None) = Some (79 + 1)"
    using s10 by simp
  from isLikelyLeak_iff [of "parseScaleneLine ex_line10 None" None] s10
  have "isLikelyLeak (parseScaleneLine ex_line10 None) None" by simp
  moreover from isLikelyLeak_iff [of "parseScaleneLine ex_line20 None" None] s20
  have "\<not> isLikelyLeak (parseScaleneLine ex_line20 None) None" by simp
  moreover from isLikelyLeak_iff [of "parseScaleneLine ex_line10 None" _ 80] s10
  have "\<not> isLikelyLeak (parseScaleneLine ex_line10 None) (Some 80)" by blast
  moreover from isLikelyLeak_iff [of "parseScaleneLine ex_line10 None" _ 79 1] s10'
  have "isLikelyLeak (parseScaleneLine ex_line10 None) (Some 79)" by blast
  ultimately show ?thesis by blast
qed

section \<open>Aggregates of the report\<close>

subsection \<open>The running maximum\<close>

lemma maxMemoryMb_aggregate_line:
  "maxMemoryMb (aggregate_line st l) = max_step (maxMemoryMb st) l"
  by (simp add: aggregate_line_def max_step_def truthy_def Let_def split: option.splits)

lemma maxMemoryMb_foldl_line:
  "maxMemoryMb (foldl aggregate_line st ls) = foldl max_step (maxMemoryMb st) ls"
  by (induction ls arbitrary: st) (simp_all add: maxMemoryMb_aggregate_line)

lemma maxMemoryMb_aggregate_file:
  "maxMemoryMb (aggregate_file st e) =
     foldl max_step (maxMemoryMb st) (Object_values (lines (parseScaleneFile (snd e))))"
  by (simp add: aggregate_file_def Let_def maxMemoryMb_foldl_line)

lemma maxMemoryMb_foldl_file:
  "maxMemoryMb (foldl aggregate_file st es) =
     foldl max_step (maxMemoryMb st)
       (concat (map (\<lambda>e. Object_values (lines (parseScaleneFile (snd e)))) es))"
  by (induction es arbitrary: st) (simp_all add: maxMemoryMb_aggregate_file)

lemma max_memory_mb_foldl:
  "max_memory_mb (parseScaleneProfile raw) = foldl max_step 0 (normalized_lines raw)"
  by (simp add: parseScaleneProfile_def Let_def maxMemoryMb_foldl_file normalized_lines_def
      initial_state_def)

lemma foldl_max_step_ge: "m \<le> foldl max_step m ls"
proof (induction ls arbitrary: m)
  case Nil
  show ?case by simp
next
  case (Cons l ls)
  have "m \<le> max_step m l" by (simp add: max_step_def split: option.splits)
  also have "\<dots> \<le> foldl max_step (max_step m l) ls" by (rule Cons.IH)
  finally show ?case by simp
qed

lemma foldl_max_step_eq_max:
  "0 \<le> m \<Longrightarrow> foldl max_step m ls = foldl max m (List.map_filter n_peak_mb ls)"
proof (induction ls arbitrary: m)
  case Nil
  show ?case by simp
next
  case (Cons l ls)
  show ?case
  proof (cases "n_peak_mb l")
    case None
    with Cons show ?thesis by (simp add: max_step_def)
  next
    case (Some p)
    have eq: "max_step m l = max m p" using Some Cons.prems
      by (auto simp add: max_step_def max_def)
    have "0 \<le> max m p" using Cons.prems by simp
    from Cons.IH [OF this] show ?thesis using Some eq by simp
  qed
qed

lemma foldl_max_pos_filter:
  "0 \<le> m \<Longrightarrow> foldl max m ps = foldl max m (filter (\<lambda>p. 0 < p) ps)" for m :: real
proof (induction ps arbitrary: m)
  case Nil
  show ?case by simp
next
  case (Cons p ps)
  show ?case
  proof (cases "0 < p")
    case True
    have "0 \<le> max m p" using Cons.prems by simp
    from Cons.IH [OF this] True show ?thesis by simp
  next
    case False
    then have "max m p = m" using Cons.prems by simp
    with Cons False show ?thesis by simp
  qed
qed

lemma foldl_max_Max: "foldl max m ps = Max (set (m # ps))" for m :: real
proof (induction ps arbitrary: m)
  case Nil
  show ?case by simp
next
  case (Cons p ps)
  have "foldl max m (p # ps) = Max (set (max m p # ps))" using Cons.IH by simp
  also have "\<dots> = Max (insert (max m p) (set ps))" by simp
  also have "\<dots> = Max (insert m (insert p (set ps)))"
    by (cases "set ps = {}") (simp_all add: max.assoc)
  finally show ?case by simp
qed

subsection \<open>The files of the result, and where its lines come from\<close>

lemma st_files_aggregate_line: "st_files (aggregate_line st l) = st_files st"
  by (simp add: aggregate_line_def Let_def)

lemma st_files_foldl_line: "st_files (foldl aggregate_line st ls) = st_files st"
  by (induction ls arbitrary: st) (simp_all add: st_files_aggregate_line)

lemma st_files_aggregate_file:
  "st_files (aggregate_file st e) = obj_set (fst e) (parseScaleneFile (snd e)) (st_files st)"
  by (simp add: aggregate_file_def Let_def st_files_foldl_line)

lemma obj_set_fresh: "k \<notin> fst ` set ps \<Longrightarrow> obj_set k v ps = ps @ [(k, v)]"
  by (induction ps) auto

lemma st_files_foldl_file:
  "distinct (map fst es) \<Longrightarrow> fst ` set (st_files st) \<inter> fst ` set es = {} \<Longrightarrow>
   st_files (foldl aggregate_file st es) =
     st_files st @ map (\<lambda>e. (fst e, parseScaleneFile (snd e))) es"
proof (induction es arbitrary: st)
  case Nil
  show ?case by simp
next
  case (Cons e es)
  have fresh: "fst e \<notin> fst ` set (st_files st)" using Cons.prems(2) by auto
  have step: "st_files (aggregate_file st e) = st_files st @ [(fst e, parseScaleneFile (snd e))]"
    by (simp add: st_files_aggregate_file obj_set_fresh [OF fresh])
  have d: "distinct (map fst es)" using Cons.prems(1) by simp
  have disj: "fst ` set (st_files (aggregate_file st e)) \<inter> fst ` set es = {}"
    using Cons.prems by (auto simp add: step)
  from Cons.IH [OF d disj] show ?case by (simp add: step)
qed

lemma files_parseScaleneProfile:
  "distinct (map fst (rp_files raw)) \<Longrightarrow>
   files (parseScaleneProfile raw) =
     map (\<lambda>e. (fst e, parseScaleneFile (snd e))) (rp_files raw)"
  using st_files_foldl_file [of "rp_files raw" initial_state]
  by (simp add: parseScaleneProfile_def Let_def initial_state_def)

lemma profile_lines_parseScaleneProfile:
  "distinct (map fst (rp_files raw)) \<Longrightarrow>
   profile_lines (parseScaleneProfile raw) = normalized_lines raw"
  by (simp add: profile_lines_def files_parseScaleneProfile normalized_lines_def comp_def)

lemma set_Object_values: "set (Object_values obj) = snd ` set obj"
  by (auto simp add: Object_values_def)

lemma set_obj_set: "set (obj_set k v ps) \<subseteq> insert (k, v) (set ps)"
  by (induction ps) auto

lemma set_foldl_obj_set:
  "snd ` set (foldl (\<lambda>ls r. obj_set (key r) (f r) ls) acc rs) \<subseteq> snd ` set acc \<union> f ` set rs"
proof (induction rs arbitrary: acc)
  case Nil
  show ?case by simp
next
  case (Cons r rs)
  have "snd ` set (obj_set (key r) (f r) acc) \<subseteq> insert (f r) (snd ` set acc)"
    using set_obj_set [of "key r" "f r" acc] by force
  with Cons.IH [of "obj_set (key r) (f r) acc"] show ?case by auto
qed

lemma normalized_line_origin:
  assumes "l \<in> set (normalized_lines raw)"
  shows "\<exists>r \<in> set (raw_lines_of raw). \<exists>lks. l = parseScaleneLine r lks"
proof -
  from assms obtain e where e: "e \<in> set (rp_files raw)"
    and l: "l \<in> set (Object_values (lines (parseScaleneFile (snd e))))"
    by (auto simp add: normalized_lines_def)
  from l have "l \<in> snd ` set (lines (parseScaleneFile (snd e)))"
    by (simp add: set_Object_values)
  then have "l \<in> (\<lambda>r. parseScaleneLine r (rf_leaks (snd e))) ` set (rf_lines (snd e))"
    using set_foldl_obj_set [of rl_lineno "\<lambda>r. parseScaleneLine r (rf_leaks (snd e))" "[]"
        "rf_lines (snd e)"]
    by (auto simp add: parseScaleneFile_def)
  then obtain r where "r \<in> set (rf_lines (snd e))" "l = parseScaleneLine r (rf_leaks (snd e))"
    by auto
  with e show ?thesis by (auto simp add: raw_lines_of_def)
qed

lemma peaks_origin:
  assumes "p \<in> set (peaks raw)"
  shows "\<exists>r \<in> set (raw_lines_of raw). rl_n_peak_mb r = Some p"
proof -
  from assms obtain l where l: "l \<in> set (normalized_lines raw)" and p: "n_peak_mb l = Some p"
    by (auto simp add: peaks_def map_filter_def)
  from normalized_line_origin [OF l] obtain r lks
    where r: "r \<in> set (raw_lines_of raw)" and "l = parseScaleneLine r lks" by blast
  with p have "rl_n_peak_mb r = Some p" by (simp add: parseScaleneLine_def Let_def)
  with r show ?thesis by blast
qed

subsection \<open>Peak memory and growth rate\<close>

lemma max_memory_mb_ge0: "0 \<le> max_memory_mb (parseScaleneProfile raw)"
  by (simp add: max_memory_mb_foldl foldl_max_step_ge)

lemma max_memory_mb_pos_peaks:
  "max_memory_mb (parseScaleneProfile raw) = foldl max 0 (filter (\<lambda>p. 0 < p) (peaks raw))"
  using foldl_max_pos_filter [of 0 "peaks raw"]
  by (simp add: max_memory_mb_foldl foldl_max_step_eq_max peaks_def)

lemma max_memory_mb_zero:
  assumes "\<forall>r \<in> set (raw_lines_of raw). case rl_n_peak_mb r of None \<Rightarrow> True | Some p \<Rightarrow> p \<le> 0"
  shows "max_memory_mb (parseScaleneProfile raw) = 0"
proof -
  have "\<forall>p \<in> set (peaks raw). p \<le> 0"
  proof
    fix p assume "p \<in> set (peaks raw)"
    from peaks_origin [OF this] obtain r
      where "r \<in> set (raw_lines_of raw)" "rl_n_peak_mb r = Some p" by blast
    with assms show "p \<le> 0" by force
  qed
  then have "filter (\<lambda>p. 0 < p) (peaks raw) = []"
    by (auto simp add: filter_empty_conv)
  then show ?thesis by (simp add: max_memory_mb_pos_peaks)
qed

lemma overflow_threshold_pos: "0 < overflow_threshold"
  by (simp add: overflow_threshold_def)










lemma ex_two_peaks: "peaks ex_two_files = [100, 200]"
  by (simp add: peaks_def normalized_lines_def ex_two_files_def bare_raw_profile_def lines_file_def
      bare_line_def parseScaleneFile_def
      parseScaleneLine_def Object_values_def is_array_index_def)

text \<open>
  When the line numbers of each file are distinct, every raw line has its normalized line.
\<close>

lemma foldl_obj_set_distinct:
  "distinct (map key rs) \<Longrightarrow> fst ` set acc \<inter> key ` set rs = {} \<Longrightarrow>
   foldl (\<lambda>ls r. obj_set (key r) (f r) ls) acc rs = acc @ map (\<lambda>r. (key r, f r)) rs"
proof (induction rs arbitrary: acc)
  case Nil
  show ?case by simp
next
  case (Cons r rs)
  have fresh: "key r \<notin> fst ` set acc" using Cons.prems(2) by auto
  have step: "obj_set (key r) (f r) acc = acc @ [(key r, f r)]"
    by (rule obj_set_fresh [OF fresh])
  have d: "distinct (map key rs)" using Cons.prems(1) by simp
  have disj: "fst ` set (acc @ [(key r, f r)]) \<inter> key ` set rs = {}"
    using Cons.prems by auto
  from Cons.IH [OF d disj] show ?case by (simp add: step)
qed

lemma lines_parseScaleneFile_distinct:
  "distinct (map rl_lineno (rf_lines f)) \<Longrightarrow>
   lines (parseScaleneFile f) =
     map (\<lambda>r. (rl_lineno r, parseScaleneLine r (rf_leaks f))) (rf_lines f)"
  using foldl_obj_set_distinct [of rl_lineno "rf_lines f" "[]"]
  by (simp add: parseScaleneFile_def)

lemma raw_peak_kept:
  assumes d: "\<forall>e \<in> set (rp_files raw). distinct (map rl_lineno (rf_lines (snd e)))"
    and r: "r \<in> set (raw_lines_of raw)" and p: "rl_n_peak_mb r = Some p"
  shows "p \<in> set (peaks raw)"
proof -
  from r obtain e where e: "e \<in> set (rp_files raw)" and re: "r \<in> set (rf_lines (snd e))"
    by (auto simp add: raw_lines_of_def)
  from d e have "distinct (map rl_lineno (rf_lines (snd e)))" by blast
  from lines_parseScaleneFile_distinct [OF this] re
  have "parseScaleneLine r (rf_leaks (snd e)) \<in> snd ` set (lines (parseScaleneFile (snd e)))"
    by force
  then have "parseScaleneLine r (rf_leaks (snd e))
      \<in> set (Object_values (lines (parseScaleneFile (snd e))))"
    by (simp add: set_Object_values)
  with e have "parseScaleneLine r (rf_leaks (snd e)) \<in> set (normalized_lines raw)"
    by (auto simp add: normalized_lines_def)
  moreover have "n_peak_mb (parseScaleneLine r (rf_leaks (snd e))) = Some p"
    using p by (simp add: parseScaleneLine_def Let_def)
  ultimately show ?thesis
    by (force simp add: peaks_def map_filter_def)
qed

lemma set_peaks_distinct:
  assumes "\<forall>e \<in> set (rp_files raw). distinct (map rl_lineno (rf_lines (snd e)))"
  shows "set (peaks raw) = set (List.map_filter rl_n_peak_mb (raw_lines_of raw))"
proof
  show "set (peaks raw) \<subseteq> set (List.map_filter rl_n_peak_mb (raw_lines_of raw))"
  proof
    fix p assume "p \<in> set (peaks raw)"
    from peaks_origin [OF this] show "p \<in> set (List.map_filter rl_n_peak_mb (raw_lines_of raw))"
      by (force simp add: map_filter_def)
  qed
  show "set (List.map_filter rl_n_peak_mb (raw_lines_of raw)) \<subseteq> set (peaks raw)"
  proof
    fix p assume "p \<in> set (List.map_filter rl_n_peak_mb (raw_lines_of raw))"
    then obtain r where "r \<in> set (raw_lines_of raw)" "rl_n_peak_mb r = Some p"
      by (auto simp add: map_filter_def)
    with assms show "p \<in> set (peaks raw)" by (blast intro: raw_peak_kept)
  qed
qed

lemma max_memory_mb_raw:
  assumes "\<forall>e \<in> set (rp_files raw). distinct (map rl_lineno (rf_lines (snd e)))"
  shows "max_memory_mb (parseScaleneProfile raw)
           = foldl max 0 (List.map_filter rl_n_peak_mb (raw_lines_of raw))"
proof -
  have "max_memory_mb (parseScaleneProfile raw) = Max (set (0 # peaks raw))"
    by (simp only: max_memory_mb_foldl foldl_max_step_eq_max [OF order_refl] peaks_def
        foldl_max_Max)
  also have "\<dots> = Max (set (0 # List.map_filter rl_n_peak_mb (raw_lines_of raw)))"
    using set_peaks_distinct [OF assms] by simp
  also have "\<dots> = foldl max 0 (List.map_filter rl_n_peak_mb (raw_lines_of raw))"
    by (rule foldl_max_Max [symmetric])
  finally show ?thesis .
qed

text \<open>
  A line number that a file reports twice: the later line replaces the earlier one, whose
  peak is then not seen.
\<close>

lemma duplicate_lineno_last_wins:
  "List.map_filter rl_n_peak_mb (raw_lines_of ex_duplicate) = [300, 100]
   \<and> peaks ex_duplicate = [100]
   \<and> max_memory_mb (parseScaleneProfile ex_duplicate) = 100"
  by (simp add: parseScaleneProfile_def ex_duplicate_def bare_raw_profile_def lines_file_def
      bare_line_def aggregate_file_def aggregate_line_def parseScaleneFile_def
      parseScaleneLine_def Object_values_def is_array_index_def truthy_def initial_state_def
      peaks_def normalized_lines_def raw_lines_of_def Let_def)

text \<open>
  Claim C7. The peak memory of the normalized report is the running maximum, started at
  0, of the peaks of all the lines of all its files; a line without a peak does not
  contribute. The first two conjuncts are about the lines that the loop visits; when the
  keys of the files object are distinct, as those of an object are, these are the lines
  of the files of the result; when no file reports a line number twice, their peaks are
  the peaks of the lines of the raw report. For two files of one line each, with peaks
  100 and 200, the peak memory is 200.
\<close>

theorem max_memory_mb_running_max:
  "max_memory_mb (parseScaleneProfile raw) = foldl max 0 (peaks raw)
   \<and> max_memory_mb (parseScaleneProfile raw) = Max (set (0 # peaks raw))
   \<and> (distinct (map fst (rp_files raw)) \<longrightarrow>
        max_memory_mb (parseScaleneProfile raw) =
          foldl max 0 (List.map_filter n_peak_mb (profile_lines (parseScaleneProfile raw))))
   \<and> ((\<forall>e \<in> set (rp_files raw). distinct (map rl_lineno (rf_lines (snd e)))) \<longrightarrow>
        max_memory_mb (parseScaleneProfile raw) =
          foldl max 0 (List.map_filter rl_n_peak_mb (raw_lines_of raw)))"
proof -
  have a: "max_memory_mb (parseScaleneProfile raw) = foldl max 0 (peaks raw)"
    by (simp add: max_memory_mb_foldl foldl_max_step_eq_max peaks_def)
  have b: "foldl max 0 (peaks raw) = Max (set (0 # peaks raw))"
    by (rule foldl_max_Max)
  have c: "distinct (map fst (rp_files raw)) \<longrightarrow>
        max_memory_mb (parseScaleneProfile raw) =
          foldl max 0 (List.map_filter n_peak_mb (profile_lines (parseScaleneProfile raw)))"
    using a by (simp add: profile_lines_parseScaleneProfile peaks_def)
  have d: "(\<forall>e \<in> set (rp_files raw). distinct (map rl_lineno (rf_lines (snd e)))) \<longrightarrow>
        max_memory_mb (parseScaleneProfile raw) =
          foldl max 0 (List.map_filter rl_n_peak_mb (raw_lines_of raw))"
    using max_memory_mb_raw [of raw] by blast
  from a b c d show ?thesis by simp
qed

theorem max_memory_mb_running_max_witness:
  "distinct (map fst (rp_files ex_two_files))
   \<and> map (\<lambda>e. map rl_lineno (rf_lines (snd e))) (rp_files ex_two_files) = [[1], [1]]
   \<and> List.map_filter rl_n_peak_mb (raw_lines_of ex_two_files) = [100, 200]
   \<and> List.map_filter n_peak_mb (profile_lines (parseScaleneProfile ex_two_files)) = [100, 200]
   \<and> max_memory_mb (parseScaleneProfile ex_two_files) = 200"
proof -
  have d: "distinct (map fst (rp_files ex_two_files))"
    by (simp add: ex_two_files_def bare_raw_profile_def)
  have l: "map (\<lambda>e. map rl_lineno (rf_lines (snd e))) (rp_files ex_two_files) = [[1], [1]]"
    by (simp add: ex_two_files_def bare_raw_profile_def lines_file_def bare_line_def)
  have "\<forall>ns \<in> set (map (\<lambda>e. map rl_lineno (rf_lines (snd e))) (rp_files ex_two_files)).
          distinct ns"
    unfolding l by simp
  then have dl: "\<forall>e \<in> set (rp_files ex_two_files). distinct (map rl_lineno (rf_lines (snd e)))"
    by simp
  have r: "List.map_filter rl_n_peak_mb (raw_lines_of ex_two_files) = [100, 200]"
    by (simp add: raw_lines_of_def ex_two_files_def bare_raw_profile_def lines_file_def
        bare_line_def)
  have p: "List.map_filter n_peak_mb (profile_lines (parseScaleneProfile ex_two_files)) = [100, 200]"
    using ex_two_peaks by (simp add: profile_lines_parseScaleneProfile [OF d] peaks_def)
  from max_memory_mb_running_max [of ex_two_files] d
  have m: "max_memory_mb (parseScaleneProfile ex_two_files) =
          foldl max 0 (List.map_filter n_peak_mb (profile_lines (parseScaleneProfile ex_two_files)))"
    by blast
  from max_memory_mb_running_max [of ex_two_files] dl
  have m': "max_memory_mb (parseScaleneProfile ex_two_files) =
          foldl max 0 (List.map_filter rl_n_peak_mb (raw_lines_of ex_two_files))"
    by blast
  from m p have "max_memory_mb (parseScaleneProfile ex_two_files) = 200" by simp
  with d l r p show ?thesis by blast
qed

text \<open>
  Claim C10. The peak memory of the normalized report is never negative: only the peaks
  that are strictly positive take part in the running maximum, which starts at 0, and a
  report whose lines have no peak, or a peak that is zero or negative, has peak memory 0.
\<close>

theorem max_memory_mb_nonneg:
  "0 \<le> max_memory_mb (parseScaleneProfile raw)
   \<and> max_memory_mb (parseScaleneProfile raw) = foldl max 0 (filter (\<lambda>p. 0 < p) (peaks raw))
   \<and> ((\<forall>r \<in> set (raw_lines_of raw). case rl_n_peak_mb r of None \<Rightarrow> True | Some p \<Rightarrow> p \<le> 0)
        \<longrightarrow> max_memory_mb (parseScaleneProfile raw) = 0)"
  using max_memory_mb_ge0 [of raw] max_memory_mb_pos_peaks [of raw] max_memory_mb_zero [of raw]
  by blast

theorem max_memory_mb_nonneg_witness:
  "map rl_n_peak_mb (raw_lines_of ex_neg_peak) = [Some (- 3), None]
   \<and> max_memory_mb (parseScaleneProfile ex_neg_peak) = 0"
proof -
  have m: "map rl_n_peak_mb (raw_lines_of ex_neg_peak) = [Some (- 3), None]"
    by (simp add: raw_lines_of_def ex_neg_peak_def bare_raw_profile_def lines_file_def
        ex_line20_def bare_line_def)
  have "\<forall>x \<in> set (map rl_n_peak_mb (raw_lines_of ex_neg_peak)).
          case x of None \<Rightarrow> True | Some p \<Rightarrow> p \<le> 0"
    unfolding m by simp
  then have h: "\<forall>r \<in> set (raw_lines_of ex_neg_peak).
      case rl_n_peak_mb r of None \<Rightarrow> True | Some p \<Rightarrow> p \<le> 0"
    by simp
  from max_memory_mb_nonneg [of ex_neg_peak] h
  have "max_memory_mb (parseScaleneProfile ex_neg_peak) = 0" by blast
  with m show ?thesis by blast
qed



section \<open>The function normalizer\<close>

text \<open>
  Claim C5 says that a raw function is rejected exactly when its name or its line number
  is absent. The test of the normalizer is one of truthiness: a function that has the
  name \<open>main\<close> and the line number 0 has both, and is rejected.
\<close>

theorem parseScaleneFunction_lineno_zero_counterexample:
  "rfn_name (bare_function (Some ''main'') (Some 0)) \<noteq> None
   \<and> rfn_lineno (bare_function (Some ''main'') (Some 0)) \<noteq> None
   \<and> parseScaleneFunction (bare_function (Some ''main'') (Some 0)) = None"
  by (simp add: bare_function_def parseScaleneFunction_def)

text \<open>
  Claim C5, amended. A raw function is rejected exactly when its name is absent or empty,
  or its line number is absent or 0; no other field is looked at. A list of two raw
  functions, the first with a name that is not empty and a line number that is not 0, the
  second without a line number, is normalized to a list of length 1.
\<close>

theorem parseScaleneFunction_rejects_iff:
  "(parseScaleneFunction raw = None \<longleftrightarrow>
      rfn_name raw = None \<or> rfn_name raw = Some [] \<or> rfn_lineno raw = None
        \<or> rfn_lineno raw = Some 0)
   \<and> (rfn_name f1 = Some n \<and> n \<noteq> [] \<and> rfn_lineno f1 = Some k \<and> k \<noteq> 0
        \<and> rfn_lineno f2 = None \<longrightarrow>
      length (file_functions (parseScaleneFile (file\<lparr>rf_functions := [f1, f2]\<rparr>))) = 1
      \<and> map fn_name (file_functions (parseScaleneFile (file\<lparr>rf_functions := [f1, f2]\<rparr>))) = [n])"
  by (auto simp add: parseScaleneFunction_def parseScaleneFile_def split: option.splits)

theorem parseScaleneFunction_rejects_iff_witness:
  "parseScaleneFunction (bare_function (Some ''run'') (Some 7)) \<noteq> None
   \<and> parseScaleneFunction (bare_function (Some []) (Some 7)) = None
   \<and> length (file_functions (parseScaleneFile
        ((lines_file [])\<lparr>rf_functions :=
           [bare_function (Some ''run'') (Some 7), bare_function (Some ''helper'') None]\<rparr>))) = 1"
proof -
  have a: "\<not> (rfn_name (bare_function (Some ''run'') (Some 7)) = None
      \<or> rfn_name (bare_function (Some ''run'') (Some 7)) = Some []
      \<or> rfn_lineno (bare_function (Some ''run'') (Some 7)) = None
      \<or> rfn_lineno (bare_function (Some ''run'') (Some 7)) = Some 0)"
    by (simp add: bare_function_def)
  have b: "rfn_name (bare_function (Some []) (Some 7)) = Some []"
    by (simp add: bare_function_def)
  have c: "rfn_name (bare_function (Some ''run'') (Some 7)) = Some ''run'' \<and> ''run'' \<noteq> []
      \<and> rfn_lineno (bare_function (Some ''run'') (Some 7)) = Some 7 \<and> (7::int) \<noteq> 0
      \<and> rfn_lineno (bare_function (Some ''helper'') None) = None"
    by (simp add: bare_function_def)
  from parseScaleneFunction_rejects_iff [of "bare_function (Some ''run'') (Some 7)"] a
  have x: "parseScaleneFunction (bare_function (Some ''run'') (Some 7)) \<noteq> None" by blast
  from parseScaleneFunction_rejects_iff [of "bare_function (Some []) (Some 7)"] b
  have y: "parseScaleneFunction (bare_function (Some []) (Some 7)) = None" by blast
  from parseScaleneFunction_rejects_iff
         [of _ "bare_function (Some ''run'') (Some 7)" "''run''" 7
             "bare_function (Some ''helper'') None" "lines_file []"] c
  have z: "length (file_functions (parseScaleneFile
        ((lines_file [])\<lparr>rf_functions :=
           [bare_function (Some ''run'') (Some 7), bare_function (Some ''helper'') None]\<rparr>))) = 1"
    by blast
  from x y z show ?thesis by blast
qed

section \<open>The parser on JSON reports: failure, totality and defaults\<close>

lemma calculateLeakScore_json_eq:
  "calculateLeakScore_json line lks = leakScore_json_spec line lks"
  by (cases "jl_n_growth_mb line"; cases "jl_n_malloc_mb line";
      cases "jl_n_usage_fraction line"; cases lks)
    (simp_all add: calculateLeakScore_json_def leakScore_json_spec_def leak_weight_json_def
      truthy_def truthy_num_def less_num_def positive_def split: option.splits)

lemma functions_map_eq:
  "functions_map xs =
     (if list_all (\<lambda>g. g \<noteq> None) xs
      then Inr (map (\<lambda>g. parseScaleneFunction_json (the g)) xs) else Inl TypeError)"
  by (induction xs rule: functions_map.induct) simp_all

lemma lines_loop_eq:
  "lines_loop lks acc xs =
     (if list_all (\<lambda>l. l \<noteq> None) xs
      then Inr (foldl (\<lambda>ls l. obj_set (jl_lineno l) (parseScaleneLine_json l lks) ls) acc
                  (map the xs))
      else Inl TypeError)"
  by (induction lks acc xs rule: lines_loop.induct) simp_all

lemma parseScaleneFile_json_Inr:
  assumes "file_matches f0"
  shows "\<exists>nf. parseScaleneFile_json f0 = Inr nf"
proof -
  from assms obtain f where f0: "f0 = Some f"
    by (cases f0) (simp_all add: file_matches_def)
  from assms f0 obtain ls where ls: "jf_lines f = Val ls" "list_all (\<lambda>l. l \<noteq> None) ls"
    by (cases "jf_lines f") (simp_all add: file_matches_def)
  from assms f0 obtain fs where fs: "jf_functions f = Val fs" "list_all (\<lambda>g. g \<noteq> None) fs"
    by (cases "jf_functions f") (simp_all add: file_matches_def)
  from ls(2) fs(2) show ?thesis
    by (simp add: parseScaleneFile_json_def f0 ls(1) fs(1) lines_loop_eq functions_map_eq)
qed

lemma parseScaleneFile_json_Inl:
  assumes "\<not> file_matches f0"
  shows "parseScaleneFile_json f0 = Inl TypeError"
proof (cases f0)
  case None
  then show ?thesis by (simp add: parseScaleneFile_json_def)
next
  case (Some f)
  show ?thesis
  proof (cases "jf_lines f")
    case Undefined
    with Some show ?thesis by (simp add: parseScaleneFile_json_def)
  next
    case Null
    with Some show ?thesis by (simp add: parseScaleneFile_json_def)
  next
    case (Val ls)
    show ?thesis
    proof (cases "list_all (\<lambda>l. l \<noteq> None) ls")
      case False
      with Some Val show ?thesis by (simp add: parseScaleneFile_json_def lines_loop_eq)
    next
      case True
      show ?thesis
      proof (cases "jf_functions f")
        case Undefined
        with Some Val True show ?thesis by (simp add: parseScaleneFile_json_def lines_loop_eq)
      next
        case Null
        with Some Val True show ?thesis by (simp add: parseScaleneFile_json_def lines_loop_eq)
      next
        case (Val fs)
        with assms Some \<open>jf_lines f = Val ls\<close> True
        have "\<not> list_all (\<lambda>g. g \<noteq> None) fs" by (simp add: file_matches_def)
        with Some \<open>jf_lines f = Val ls\<close> True Val show ?thesis
          by (simp add: parseScaleneFile_json_def lines_loop_eq functions_map_eq)
      qed
    qed
  qed
qed

lemma files_loop_eq:
  "files_loop st es =
     (if list_all (\<lambda>entry. file_matches (snd entry)) es
      then Inr (foldl file_step st es) else Inl TypeError)"
proof (induction st es rule: files_loop.induct)
  case (1 st)
  show ?case by simp
next
  case (2 st entry rest)
  show ?case
  proof (cases "file_matches (snd entry)")
    case True
    from parseScaleneFile_json_Inr [OF this] obtain nf
      where nf: "parseScaleneFile_json (snd entry) = Inr nf" by blast
    have step: "foldl aggregate_line_json
                  (st\<lparr>jst_files := obj_set (fst entry) nf (jst_files st)\<rparr>)
                  (Object_values (nf_lines nf)) = file_step st entry"
      using nf by (simp add: file_step_def)
    from 2 [OF nf] True nf show ?thesis by (simp add: step)
  next
    case False
    from parseScaleneFile_json_Inl [OF this] False show ?thesis by simp
  qed
qed

lemma parseScaleneProfile_json_eq:
  "parseScaleneProfile_json raw =
     (if matches_schema raw
      then Inr (build_profile raw (foldl file_step initial_state_json (val (jp_files raw))))
      else Inl TypeError)"
  by (cases "jp_files raw")
    (simp_all add: matches_schema_def parseScaleneProfile_json_def files_loop_eq)

lemma keys_obj_set: "fst ` set (obj_set k v ps) = insert k (fst ` set ps)"
  by (induction ps) auto

lemma jst_files_aggregate_line_json: "jst_files (aggregate_line_json st l) = jst_files st"
  by (simp add: aggregate_line_json_def Let_def)

lemma jst_files_foldl_line_json: "jst_files (foldl aggregate_line_json st ls) = jst_files st"
  by (induction ls arbitrary: st) (simp_all add: jst_files_aggregate_line_json)

lemma keys_file_step:
  "fst ` set (jst_files (file_step st e)) = insert (fst e) (fst ` set (jst_files st))"
  by (simp add: file_step_def jst_files_foldl_line_json keys_obj_set)

lemma keys_foldl_file_step:
  "fst ` set (jst_files (foldl file_step st es)) = fst ` set (jst_files st) \<union> fst ` set es"
  by (induction es arbitrary: st) (auto simp add: keys_file_step)

lemma build_profile_args:
  "np_args (build_profile raw st) = (case jp_args raw of Val a \<Rightarrow> a | _ \<Rightarrow> [])"
  by (simp add: build_profile_def Let_def)

lemma build_profile_entrypoint_dir:
  "np_entrypoint_dir (build_profile raw st)
     = (case jp_entrypoint_dir raw of Val d \<Rightarrow> d | _ \<Rightarrow> [])"
  by (cases "jp_entrypoint_dir raw")
    (simp_all add: build_profile_def Let_def or_str_def truthy_str_def)

lemma build_profile_alloc_samples:
  "np_alloc_samples (build_profile raw st)
     = (case jp_alloc_samples raw of Val n \<Rightarrow> n | _ \<Rightarrow> 0)"
  by (cases "jp_alloc_samples raw")
    (simp_all add: build_profile_def Let_def or_num_def truthy_num_def)

lemma build_profile_free_samples:
  "np_free_samples (build_profile raw st)
     = (case jp_free_samples raw of Val n \<Rightarrow> n | _ \<Rightarrow> 0)"
  by (cases "jp_free_samples raw")
    (simp_all add: build_profile_def Let_def or_num_def truthy_num_def)

lemma build_profile_program_nonempty: "np_program (build_profile raw st) \<noteq> []"
  by (simp add: build_profile_def Let_def or_str_def truthy_str_def
      split: property.splits)

lemma build_profile_program_Unknown:
  "chain_first (jp_args raw) = Undefined \<Longrightarrow>
   jp_filename raw = Undefined \<or> jp_filename raw = Null \<Longrightarrow>
   np_program (build_profile raw st) = ''Unknown''"
  by (auto simp add: build_profile_def Let_def or_str_def truthy_str_def)

lemma file_step_initial_files:
  "jst_files (foldl file_step initial_state_json []) = []"
  by (simp add: initial_state_json_def)

lemma parseScaleneFile_json_leaks:
  assumes "parseScaleneFile_json (Some f) = Inr nf"
  shows "nf_leaks nf = (case jf_leaks f of Val m \<Rightarrow> m | _ \<Rightarrow> [])"
proof -
  have m: "file_matches (Some f)"
  proof (rule ccontr)
    assume "\<not> file_matches (Some f)"
    from parseScaleneFile_json_Inl [OF this] assms show False by simp
  qed
  from m obtain ls where ls: "jf_lines f = Val ls" "list_all (\<lambda>l. l \<noteq> None) ls"
    by (cases "jf_lines f") (simp_all add: file_matches_def)
  from m obtain fs where fs: "jf_functions f = Val fs" "list_all (\<lambda>g. g \<noteq> None) fs"
    by (cases "jf_functions f") (simp_all add: file_matches_def)
  from ls(2) fs(2) assms show ?thesis
    by (auto simp add: parseScaleneFile_json_def ls(1) fs(1) lines_loop_eq functions_map_eq)
qed

lemma samples_count_json:
  "nl_cpu_samples_count (parseScaleneLine_json l lks)
     = Val (case jl_cpu_samples_list l of Val xs \<Rightarrow> real (length xs) | _ \<Rightarrow> 0)"
  "nl_memory_samples_count (parseScaleneLine_json l lks)
     = Val (case jl_memory_samples l of Val xs \<Rightarrow> real (length xs) | _ \<Rightarrow> 0)"
  by (simp_all add: parseScaleneLine_json_def Let_def or_num_def chain_length_def
      truthy_num_def split: property.splits)

lemma empty_files_json:
  assumes "jp_files raw = Val []"
  shows "\<exists>p. parseScaleneProfile_json raw = Inr p \<and> np_files p = []
           \<and> np_max_memory_mb p = 0 \<and> np_total_memory_growth_mb p = 0
           \<and> np_growth_rate p = Finite 0 \<and> np_total_cpu_percent_python p = 0
           \<and> np_total_cpu_percent_c p = 0 \<and> np_total_sys_percent p = 0"
  using assms
  by (simp add: parseScaleneProfile_json_def build_profile_def initial_state_json_def Let_def)

lemma ex_nulls_report_matches: "matches_schema ex_nulls_report"
  by (simp add: matches_schema_def file_matches_def ex_nulls_report_def ex_nulls_file_def)

lemma ex_no_functions_mismatch: "\<not> matches_schema ex_no_functions"
  by (simp add: matches_schema_def file_matches_def ex_no_functions_def ex_nulls_report_def
      ex_nulls_file_def)

lemma obj_set_map:
  "obj_set k (g v) (map (\<lambda>e. (fst e, g (snd e))) ps)
     = map (\<lambda>e. (fst e, g (snd e))) (obj_set k v ps)"
  by (induction ps) auto

lemma insort_key_map:
  "insort_key fst (fst x, g (snd x)) (map (\<lambda>e. (fst e, g (snd e))) xs)
     = map (\<lambda>e. (fst e, g (snd e))) (insort_key fst x xs)"
  by (induction xs) auto

lemma sort_key_map:
  "sort_key fst (map (\<lambda>e. (fst e, g (snd e))) xs)
     = map (\<lambda>e. (fst e, g (snd e))) (sort_key fst xs)"
  by (induction xs) (simp_all add: insort_key_map)

lemma Object_values_map:
  "Object_values (map (\<lambda>e. (fst e, g (snd e))) ps) = map g (Object_values ps)"
  by (simp add: Object_values_def filter_map comp_def sort_key_map)

lemma prop_of_simps:
  "prop_of None = Undefined" "prop_of (Some v) = Val v"
  by (simp_all add: prop_of_def)

lemma json_line_fields:
  "jl_lineno (json_line r) = rl_lineno r"
  "jl_n_growth_mb (json_line r) = prop_of (rl_n_growth_mb r)"
  "jl_n_malloc_mb (json_line r) = prop_of (rl_n_malloc_mb r)"
  "jl_n_usage_fraction (json_line r) = prop_of (rl_n_usage_fraction r)"
  by (simp_all add: json_line_def)

lemma leak_weight_agrees: "leak_weight_json (json_line r) (prop_of lks) = leak_weight r lks"
  by (cases lks) (simp_all add: leak_weight_json_def leak_weight_def json_line_fields prop_of_simps)

lemma leak_score_agrees:
  "calculateLeakScore_json (json_line r) (prop_of lks) = calculateLeakScore r lks"
  unfolding calculateLeakScore_json_eq calculateLeakScore_eq
  by (cases "rl_n_growth_mb r"; cases "rl_n_malloc_mb r"; cases "rl_n_usage_fraction r")
    (simp_all add: leakScore_json_spec_def leakScore_spec_def leak_weight_agrees
      json_line_fields prop_of_simps positive_def)

lemma samples_agree:
  "or_num (chain_length (prop_of xs)) 0 = num_or (map_option (\<lambda>l. real (length l)) xs) 0"
  by (cases xs) (simp_all add: or_num_def num_or_def chain_length_def prop_of_def truthy_num_def)

lemma line_agrees:
  "parseScaleneLine_json (json_line r) (prop_of lks) = norm_line (parseScaleneLine r lks)"
  unfolding parseScaleneLine_json_def parseScaleneLine_def Let_def leak_score_agrees
  by (simp add: norm_line_def json_line_def samples_agree prop_of_simps)

lemma function_agrees:
  "parseScaleneFunction_json (json_function r) = map_option norm_function (parseScaleneFunction r)"
  by (cases "rfn_name r"; cases "rfn_lineno r")
    (simp_all add: parseScaleneFunction_json_def parseScaleneFunction_def json_function_def
      norm_function_def prop_of_def truthy_str_def truthy_int_def)

lemma lines_fold_agrees:
  "foldl (\<lambda>ls l. obj_set (jl_lineno l) (parseScaleneLine_json l (prop_of lks)) ls)
     (map (\<lambda>e. (fst e, norm_line (snd e))) acc) (map json_line rs)
   = map (\<lambda>e. (fst e, norm_line (snd e)))
       (foldl (\<lambda>ls r. obj_set (rl_lineno r) (parseScaleneLine r lks) ls) acc rs)"
proof (induction rs arbitrary: acc)
  case Nil
  show ?case by simp
next
  case (Cons r rs)
  have "obj_set (jl_lineno (json_line r)) (parseScaleneLine_json (json_line r) (prop_of lks))
          (map (\<lambda>e. (fst e, norm_line (snd e))) acc)
        = map (\<lambda>e. (fst e, norm_line (snd e)))
            (obj_set (rl_lineno r) (parseScaleneLine r lks) acc)"
    by (simp only: json_line_fields line_agrees obj_set_map)
  with Cons.IH [of "obj_set (rl_lineno r) (parseScaleneLine r lks) acc"] show ?case by simp
qed

lemma functions_agree:
  "map the (filter (\<lambda>f. f \<noteq> None)
      (map (\<lambda>g. parseScaleneFunction_json (the g)) (map (\<lambda>g. Some (json_function g)) fs)))
   = map norm_function (map the (filter (\<lambda>f. f \<noteq> None) (map parseScaleneFunction fs)))"
  by (induction fs) (auto simp add: function_agrees)

lemma file_agrees:
  "parseScaleneFile_json (Some (json_file f)) = Inr (norm_file (parseScaleneFile f))"
proof -
  have l: "list_all (\<lambda>l. l \<noteq> None) (map (\<lambda>l. Some (json_line l)) (rf_lines f))"
    by (simp add: list_all_iff)
  have g: "list_all (\<lambda>g. g \<noteq> None) (map (\<lambda>g. Some (json_function g)) (rf_functions f))"
    by (simp add: list_all_iff)
  have m: "map the (map (\<lambda>l. Some (json_line l)) (rf_lines f)) = map json_line (rf_lines f)"
    by simp
  have fold: "foldl (\<lambda>ls l. obj_set (jl_lineno l)
                       (parseScaleneLine_json l (prop_of (rf_leaks f))) ls) []
                (map json_line (rf_lines f))
              = map (\<lambda>e. (fst e, norm_line (snd e))) (lines (parseScaleneFile f))"
    using lines_fold_agrees [of "rf_leaks f" "[]" "rf_lines f"]
    by (simp add: parseScaleneFile_def)
  have ll: "lines_loop (prop_of (rf_leaks f)) [] (map (\<lambda>l. Some (json_line l)) (rf_lines f))
              = Inr (map (\<lambda>e. (fst e, norm_line (snd e))) (lines (parseScaleneFile f)))"
    unfolding lines_loop_eq m fold using l by simp
  have fm: "functions_map (map (\<lambda>g. Some (json_function g)) (rf_functions f))
              = Inr (map (\<lambda>g. parseScaleneFunction_json (the g))
                      (map (\<lambda>g. Some (json_function g)) (rf_functions f)))"
    unfolding functions_map_eq using g by simp
  have fa: "map the (filter (\<lambda>f. f \<noteq> None)
              (map (\<lambda>g. parseScaleneFunction_json (the g))
                 (map (\<lambda>g. Some (json_function g)) (rf_functions f))))
            = map norm_function (file_functions (parseScaleneFile f))"
    using functions_agree [of "rf_functions f"] by (simp add: parseScaleneFile_def)
  have k: "(case prop_of (rf_leaks f) of Val m \<Rightarrow> m | _ \<Rightarrow> []) = leaks (parseScaleneFile f)"
    by (cases "rf_leaks f") (simp_all add: prop_of_simps parseScaleneFile_def)
  have jf: "jf_lines (json_file f) = Val (map (\<lambda>l. Some (json_line l)) (rf_lines f))"
    "jf_functions (json_file f) = Val (map (\<lambda>g. Some (json_function g)) (rf_functions f))"
    "jf_leaks (json_file f) = prop_of (rf_leaks f)"
    by (simp_all add: json_file_def)
  have "parseScaleneFile_json (Some (json_file f))
          = Inr \<lparr> nf_lines = map (\<lambda>e. (fst e, norm_line (snd e))) (lines (parseScaleneFile f)),
                  nf_functions =
                    map the (filter (\<lambda>f. f \<noteq> None)
                      (map (\<lambda>g. parseScaleneFunction_json (the g))
                         (map (\<lambda>g. Some (json_function g)) (rf_functions f)))),
                  nf_leaks = (case prop_of (rf_leaks f) of Val m \<Rightarrow> m | _ \<Rightarrow> []) \<rparr>"
    unfolding parseScaleneFile_json_def
    by (simp only: jf ll fm option.case property.case sum.case)
  then show ?thesis
    unfolding fa k by (simp add: norm_file_def)
qed

lemma norm_line_fields:
  "nl_n_peak_mb (norm_line d) = prop_of (n_peak_mb d)"
  "nl_n_growth_mb (norm_line d) = prop_of (n_growth_mb d)"
  "nl_n_cpu_percent_python (norm_line d) = prop_of (n_cpu_percent_python d)"
  "nl_n_cpu_percent_c (norm_line d) = prop_of (n_cpu_percent_c d)"
  "nl_n_sys_percent (norm_line d) = prop_of (n_sys_percent d)"
  by (simp_all add: norm_line_def)

lemma truthy_num_prop_of: "truthy_num (prop_of x) = truthy x"
  by (cases x) (simp_all add: truthy_num_def truthy_def prop_of_simps)

lemma val_prop_of: "truthy x \<Longrightarrow> val (prop_of x) = the x"
  by (cases x) (simp_all add: truthy_def prop_of_simps)

lemma aggregate_line_agrees:
  "aggregate_line_json (norm_state st) (norm_line d) = norm_state (aggregate_line st d)"
  by (cases "n_peak_mb d"; cases "n_growth_mb d"; cases "n_cpu_percent_python d";
      cases "n_cpu_percent_c d"; cases "n_sys_percent d")
    (simp_all add: aggregate_line_json_def aggregate_line_def Let_def norm_line_fields
      truthy_num_def truthy_def prop_of_simps norm_state_def)

lemma foldl_aggregate_line_agrees:
  "foldl aggregate_line_json (norm_state st) (map norm_line ds)
     = norm_state (foldl aggregate_line st ds)"
  by (induction ds arbitrary: st) (simp_all add: aggregate_line_agrees)

lemma file_step_agrees:
  "file_step (norm_state st) (fst e, Some (json_file (snd e)))
     = norm_state (aggregate_file st e)"
proof -
  have upd: "(norm_state st)\<lparr>jst_files :=
               obj_set (fst e) (norm_file (parseScaleneFile (snd e))) (jst_files (norm_state st))\<rparr>
             = norm_state (st\<lparr>st_files :=
                 obj_set (fst e) (parseScaleneFile (snd e)) (st_files st)\<rparr>)"
    by (simp add: norm_state_def obj_set_map)
  have vals: "Object_values (nf_lines (norm_file (parseScaleneFile (snd e))))
              = map norm_line (Object_values (lines (parseScaleneFile (snd e))))"
    by (simp add: norm_file_def Object_values_map)
  show ?thesis
    unfolding file_step_def aggregate_file_def Let_def
    by (simp add: file_agrees upd vals foldl_aggregate_line_agrees)
qed

lemma foldl_file_step_agrees:
  "foldl file_step (norm_state st) (map (\<lambda>e. (fst e, Some (json_file (snd e)))) es)
     = norm_state (foldl aggregate_file st es)"
  by (induction es arbitrary: st) (simp_all add: file_step_agrees)

lemma json_profile_matches: "matches_schema (json_profile raw)"
  by (simp add: matches_schema_def json_profile_def file_matches_def json_file_def
      list_all_iff)

lemma initial_state_agrees: "initial_state_json = norm_state initial_state"
  by (simp add: initial_state_json_def initial_state_def norm_state_def)

lemma or_str_prop_of: "or_str (prop_of x) d = str_or x d"
  by (cases x) (simp_all add: or_str_def str_or_def truthy_str_def prop_of_simps)

lemma or_num_prop_of: "or_num (prop_of x) d = num_or x d"
  by (cases x) (simp_all add: or_num_def num_or_def truthy_num_def prop_of_simps)

lemma chain_first_prop_of: "chain_first (prop_of xs) = prop_of (opt_first xs)"
  by (cases xs) (simp_all add: chain_first_def opt_first_def prop_of_simps split: list.splits)

lemma profile_agrees:
  "parseScaleneProfile_json (json_profile raw) = Inr (norm_profile (parseScaleneProfile raw))"
proof -
  have st: "foldl file_step initial_state_json (val (jp_files (json_profile raw)))
              = norm_state (foldl aggregate_file initial_state (rp_files raw))"
    by (simp add: json_profile_def initial_state_agrees foldl_file_step_agrees)
  have a: "(case prop_of (rp_args raw) of Val a \<Rightarrow> a | _ \<Rightarrow> [])
             = (case rp_args raw of None \<Rightarrow> [] | Some a \<Rightarrow> a)"
    by (cases "rp_args raw") (simp_all add: prop_of_simps)
  have f: "jp_args (json_profile raw) = prop_of (rp_args raw)"
    "jp_filename (json_profile raw) = prop_of (rp_filename raw)"
    "jp_entrypoint_dir (json_profile raw) = prop_of (rp_entrypoint_dir raw)"
    "jp_alloc_samples (json_profile raw) = prop_of (rp_alloc_samples raw)"
    "jp_free_samples (json_profile raw) = prop_of (rp_free_samples raw)"
    "jp_elapsed_time_sec (json_profile raw) = rp_elapsed_time_sec raw"
    by (simp_all add: json_profile_def)
  show ?thesis
    unfolding parseScaleneProfile_json_eq st
    by (simp add: json_profile_matches build_profile_def Let_def f a or_str_prop_of
        or_num_prop_of chain_first_prop_of norm_profile_def parseScaleneProfile_def
        norm_state_def)
qed

lemma aggregate_line_json_absent:
  "absent (nl_n_peak_mb d) \<Longrightarrow>
     jst_maxMemoryMb (aggregate_line_json st d) = jst_maxMemoryMb st"
  "absent (nl_n_growth_mb d) \<Longrightarrow>
     jst_totalMemoryGrowthMb (aggregate_line_json st d) = jst_totalMemoryGrowthMb st"
  "absent (nl_n_cpu_percent_python d) \<Longrightarrow>
     jst_totalCpuPython (aggregate_line_json st d) = jst_totalCpuPython st"
  "absent (nl_n_cpu_percent_c d) \<Longrightarrow>
     jst_totalCpuC (aggregate_line_json st d) = jst_totalCpuC st"
  "absent (nl_n_sys_percent d) \<Longrightarrow>
     jst_totalSys (aggregate_line_json st d) = jst_totalSys st"
  by (simp_all add: aggregate_line_json_def Let_def absent_def truthy_num_def
      split: property.splits)

lemma parseScaleneFunction_json_absent:
  "absent (jfn_name g) \<or> absent (jfn_lineno g) \<Longrightarrow> parseScaleneFunction_json g = None"
  by (auto simp add: parseScaleneFunction_json_def absent_def truthy_str_def truthy_int_def
      split: property.splits)

text \<open>
  Claim C6 says that the report normalizer never raises and treats every absent or
  malformed optional field as absent. A \<open>null\<close> usage fraction is not treated as absent:
  the test of the leak score is \<open>!== undefined\<close>, \<open>null\<close> passes it and is compared as
  the number 0, so a line with growth 5 scores 70 with a \<open>null\<close> usage fraction and 50
  without one.
\<close>

theorem null_usage_fraction_counterexample:
  "nl_leak_score (parseScaleneLine_json (ex_growing\<lparr>jl_n_usage_fraction := Null\<rparr>) Undefined)
     = Val 70
   \<and> nl_leak_score
        (parseScaleneLine_json (ex_growing\<lparr>jl_n_usage_fraction := Undefined\<rparr>) Undefined)
     = Val 50
   \<and> (70::real) \<noteq> 50"
  by (simp add: parseScaleneLine_json_def calculateLeakScore_json_def ex_growing_def
      bare_json_line_def truthy_num_def less_num_def)

text \<open>
  Claim C6, amended. A JSON report matches the schema when its files object, and the
  lines and the functions of every file, are there and hold no \<open>null\<close>. On every such
  report, whose optional properties are each missing, \<open>null\<close> or of the declared type
  (a report without files included), the normalizer returns a normalized report; on
  every other report it throws a \<open>TypeError\<close>. An optional property that is missing or
  \<open>null\<close> takes its default: no arguments, an empty entry point directory, 0 samples,
  the program name \<open>Unknown\<close>, an empty leak map, 0 for the length of a sample list. A
  missing or \<open>null\<close> growth or allocation adds nothing to the leak score, a missing or
  \<open>null\<close> metric of a line leaves its aggregate as it is, and a function whose name or
  line number is missing or \<open>null\<close> is dropped. A \<open>null\<close> usage fraction is compared as
  0. On a report of the declared types the result is that of \<open>parseScaleneProfile\<close>.
\<close>

theorem parseScaleneProfile_json_total:
  "(matches_schema raw \<longrightarrow> (\<exists>q. parseScaleneProfile_json raw = Inr q))
   \<and> (\<not> matches_schema raw \<longrightarrow> parseScaleneProfile_json raw = Inl TypeError)
   \<and> (parseScaleneProfile_json raw = Inr p \<longrightarrow>
        np_args p = (case jp_args raw of Val a \<Rightarrow> a | _ \<Rightarrow> [])
        \<and> np_entrypoint_dir p = (case jp_entrypoint_dir raw of Val d \<Rightarrow> d | _ \<Rightarrow> [])
        \<and> np_alloc_samples p = (case jp_alloc_samples raw of Val n \<Rightarrow> n | _ \<Rightarrow> 0)
        \<and> np_free_samples p = (case jp_free_samples raw of Val n \<Rightarrow> n | _ \<Rightarrow> 0)
        \<and> np_program p \<noteq> []
        \<and> (chain_first (jp_args raw) = Undefined
             \<and> (jp_filename raw = Undefined \<or> jp_filename raw = Null)
            \<longrightarrow> np_program p = ''Unknown'')
        \<and> fst ` set (np_files p) = fst ` set (val (jp_files raw)))
   \<and> (parseScaleneFile_json (Some f) = Inr nf \<longrightarrow>
        nf_leaks nf = (case jf_leaks f of Val m \<Rightarrow> m | _ \<Rightarrow> []))
   \<and> nl_cpu_samples_count (parseScaleneLine_json l lks)
       = Val (case jl_cpu_samples_list l of Val xs \<Rightarrow> real (length xs) | _ \<Rightarrow> 0)
   \<and> nl_memory_samples_count (parseScaleneLine_json l lks)
       = Val (case jl_memory_samples l of Val xs \<Rightarrow> real (length xs) | _ \<Rightarrow> 0)
   \<and> nl_leak_score (parseScaleneLine_json l lks) = Val (leakScore_json_spec l lks)
   \<and> (jp_files raw = Val [] \<longrightarrow>
        (\<exists>q. parseScaleneProfile_json raw = Inr q \<and> np_files q = []
           \<and> np_max_memory_mb q = 0 \<and> np_total_memory_growth_mb q = 0
           \<and> np_growth_rate q = Finite 0 \<and> np_total_cpu_percent_python q = 0
           \<and> np_total_cpu_percent_c q = 0 \<and> np_total_sys_percent q = 0))
   \<and> (absent (nl_n_peak_mb d) \<longrightarrow>
        jst_maxMemoryMb (aggregate_line_json st d) = jst_maxMemoryMb st)
   \<and> (absent (nl_n_growth_mb d) \<longrightarrow>
        jst_totalMemoryGrowthMb (aggregate_line_json st d) = jst_totalMemoryGrowthMb st)
   \<and> (absent (nl_n_cpu_percent_python d) \<longrightarrow>
        jst_totalCpuPython (aggregate_line_json st d) = jst_totalCpuPython st)
   \<and> (absent (nl_n_cpu_percent_c d) \<longrightarrow>
        jst_totalCpuC (aggregate_line_json st d) = jst_totalCpuC st)
   \<and> (absent (nl_n_sys_percent d) \<longrightarrow>
        jst_totalSys (aggregate_line_json st d) = jst_totalSys st)
   \<and> (absent (jfn_name g) \<or> absent (jfn_lineno g) \<longrightarrow> parseScaleneFunction_json g = None)
   \<and> matches_schema (json_profile typed)
   \<and> parseScaleneProfile_json (json_profile typed)
       = Inr (norm_profile (parseScaleneProfile typed))"
proof -
  have a: "matches_schema raw \<longrightarrow> (\<exists>q. parseScaleneProfile_json raw = Inr q)"
    by (simp add: parseScaleneProfile_json_eq)
  have b: "\<not> matches_schema raw \<longrightarrow> parseScaleneProfile_json raw = Inl TypeError"
    by (simp add: parseScaleneProfile_json_eq)
  have c: "parseScaleneProfile_json raw = Inr p \<longrightarrow>
        np_args p = (case jp_args raw of Val a \<Rightarrow> a | _ \<Rightarrow> [])
        \<and> np_entrypoint_dir p = (case jp_entrypoint_dir raw of Val d \<Rightarrow> d | _ \<Rightarrow> [])
        \<and> np_alloc_samples p = (case jp_alloc_samples raw of Val n \<Rightarrow> n | _ \<Rightarrow> 0)
        \<and> np_free_samples p = (case jp_free_samples raw of Val n \<Rightarrow> n | _ \<Rightarrow> 0)
        \<and> np_program p \<noteq> []
        \<and> (chain_first (jp_args raw) = Undefined
             \<and> (jp_filename raw = Undefined \<or> jp_filename raw = Null)
            \<longrightarrow> np_program p = ''Unknown'')
        \<and> fst ` set (np_files p) = fst ` set (val (jp_files raw))"
  proof
    assume r: "parseScaleneProfile_json raw = Inr p"
    define st where "st = foldl file_step initial_state_json (val (jp_files raw))"
    from r have p: "p = build_profile raw st"
      by (simp add: parseScaleneProfile_json_eq st_def split: if_splits)
    have k: "fst ` set (np_files p) = fst ` set (val (jp_files raw))"
      by (simp add: p build_profile_def Let_def st_def keys_foldl_file_step
          initial_state_json_def)
    show "np_args p = (case jp_args raw of Val a \<Rightarrow> a | _ \<Rightarrow> [])
        \<and> np_entrypoint_dir p = (case jp_entrypoint_dir raw of Val d \<Rightarrow> d | _ \<Rightarrow> [])
        \<and> np_alloc_samples p = (case jp_alloc_samples raw of Val n \<Rightarrow> n | _ \<Rightarrow> 0)
        \<and> np_free_samples p = (case jp_free_samples raw of Val n \<Rightarrow> n | _ \<Rightarrow> 0)
        \<and> np_program p \<noteq> []
        \<and> (chain_first (jp_args raw) = Undefined
             \<and> (jp_filename raw = Undefined \<or> jp_filename raw = Null)
            \<longrightarrow> np_program p = ''Unknown'')
        \<and> fst ` set (np_files p) = fst ` set (val (jp_files raw))"
      unfolding p
      using build_profile_args [of raw st] build_profile_entrypoint_dir [of raw st]
        build_profile_alloc_samples [of raw st] build_profile_free_samples [of raw st]
        build_profile_program_nonempty [of raw st] build_profile_program_Unknown [of raw st]
        k [unfolded p]
      by blast
  qed
  have d: "parseScaleneFile_json (Some f) = Inr nf \<longrightarrow>
        nf_leaks nf = (case jf_leaks f of Val m \<Rightarrow> m | _ \<Rightarrow> [])"
    using parseScaleneFile_json_leaks by blast
  have e: "nl_leak_score (parseScaleneLine_json l lks) = Val (leakScore_json_spec l lks)"
    by (simp add: parseScaleneLine_json_def Let_def calculateLeakScore_json_eq)
  have g: "jp_files raw = Val [] \<longrightarrow>
        (\<exists>q. parseScaleneProfile_json raw = Inr q \<and> np_files q = []
           \<and> np_max_memory_mb q = 0 \<and> np_total_memory_growth_mb q = 0
           \<and> np_growth_rate q = Finite 0 \<and> np_total_cpu_percent_python q = 0
           \<and> np_total_cpu_percent_c q = 0 \<and> np_total_sys_percent q = 0)"
    using empty_files_json by blast
  have h: "(absent (nl_n_peak_mb d) \<longrightarrow>
        jst_maxMemoryMb (aggregate_line_json st d) = jst_maxMemoryMb st)
   \<and> (absent (nl_n_growth_mb d) \<longrightarrow>
        jst_totalMemoryGrowthMb (aggregate_line_json st d) = jst_totalMemoryGrowthMb st)
   \<and> (absent (nl_n_cpu_percent_python d) \<longrightarrow>
        jst_totalCpuPython (aggregate_line_json st d) = jst_totalCpuPython st)
   \<and> (absent (nl_n_cpu_percent_c d) \<longrightarrow>
        jst_totalCpuC (aggregate_line_json st d) = jst_totalCpuC st)
   \<and> (absent (nl_n_sys_percent d) \<longrightarrow>
        jst_totalSys (aggregate_line_json st d) = jst_totalSys st)"
    using aggregate_line_json_absent [of d st] by blast
  have i: "absent (jfn_name g) \<or> absent (jfn_lineno g) \<longrightarrow> parseScaleneFunction_json g = None"
    using parseScaleneFunction_json_absent [of g] by blast
  from a b c d e g h i samples_count_json [of l lks] json_profile_matches [of typed]
    profile_agrees [of typed]
  show ?thesis by blast
qed

theorem parseScaleneProfile_json_total_witness:
  "matches_schema ex_nulls_report
   \<and> (\<exists>q. parseScaleneProfile_json ex_nulls_report = Inr q \<and> np_args q = []
          \<and> np_entrypoint_dir q = [] \<and> np_alloc_samples q = 0 \<and> np_free_samples q = 0
          \<and> np_program q = ''Unknown'')
   \<and> \<not> matches_schema ex_no_functions
   \<and> parseScaleneProfile_json ex_no_functions = Inl TypeError
   \<and> (\<exists>q. parseScaleneProfile_json ex_no_files = Inr q \<and> np_files q = []
          \<and> np_max_memory_mb q = 0 \<and> np_growth_rate q = Finite 0)
   \<and> (\<exists>nf. parseScaleneFile_json (Some ex_nulls_file) = Inr nf \<and> nf_leaks nf = [])
   \<and> nl_cpu_samples_count (parseScaleneLine_json ex_nulls_line Null) = Val 0
   \<and> nl_leak_score (parseScaleneLine_json ex_nulls_line Null) = Val 50
   \<and> nl_n_peak_mb (parseScaleneLine_json ex_nulls_line Null) = Null
   \<and> jst_maxMemoryMb
        (aggregate_line_json initial_state_json (parseScaleneLine_json ex_nulls_line Null)) = 0
   \<and> jst_totalCpuPython
        (aggregate_line_json initial_state_json (parseScaleneLine_json ex_nulls_line Null)) = 0
   \<and> jst_totalCpuC
        (aggregate_line_json initial_state_json (parseScaleneLine_json ex_nulls_line Null)) = 0
   \<and> jst_totalSys
        (aggregate_line_json initial_state_json (parseScaleneLine_json ex_nulls_line Null)) = 0
   \<and> jst_totalMemoryGrowthMb
        (aggregate_line_json initial_state_json
           (parseScaleneLine_json (bare_json_line 20 ''pass'') Null)) = 0
   \<and> parseScaleneFunction_json ex_null_name = None
   \<and> parseScaleneProfile_json (json_profile ex_two_files)
       = Inr (norm_profile (parseScaleneProfile ex_two_files))"
proof -
  note t = parseScaleneProfile_json_total
  from t [where raw = ex_nulls_report] ex_nulls_report_matches
  obtain q where q: "parseScaleneProfile_json ex_nulls_report = Inr q" by blast
  have h: "jp_args ex_nulls_report = Null" "jp_entrypoint_dir ex_nulls_report = Null"
    "jp_alloc_samples ex_nulls_report = Null" "jp_free_samples ex_nulls_report = Undefined"
    "chain_first (jp_args ex_nulls_report) = Undefined"
    "jp_filename ex_nulls_report = Undefined"
    by (simp_all add: ex_nulls_report_def chain_first_def)
  from t [where raw = ex_nulls_report and p = q] q h
  have a: "np_args q = [] \<and> np_entrypoint_dir q = [] \<and> np_alloc_samples q = 0
      \<and> np_free_samples q = 0 \<and> np_program q = ''Unknown''"
    by simp
  from t [where raw = ex_no_functions] ex_no_functions_mismatch
  have b: "parseScaleneProfile_json ex_no_functions = Inl TypeError" by blast
  have "jp_files ex_no_files = Val []" by (simp add: ex_no_files_def)
  with t [where raw = ex_no_files]
  have c: "\<exists>q. parseScaleneProfile_json ex_no_files = Inr q \<and> np_files q = []
          \<and> np_max_memory_mb q = 0 \<and> np_growth_rate q = Finite 0" by blast
  have "file_matches (Some ex_nulls_file)"
    by (simp add: file_matches_def ex_nulls_file_def)
  from parseScaleneFile_json_Inr [OF this] obtain nf
    where nf: "parseScaleneFile_json (Some ex_nulls_file) = Inr nf" by blast
  from t [where f = ex_nulls_file and nf = nf] nf
  have "nf_leaks nf = (case jf_leaks ex_nulls_file of Val m \<Rightarrow> m | _ \<Rightarrow> [])" by blast
  then have d: "nf_leaks nf = []" by (simp add: ex_nulls_file_def)
  from t [where l = ex_nulls_line and lks = Null]
  have e: "nl_cpu_samples_count (parseScaleneLine_json ex_nulls_line Null) = Val 0"
    and f: "nl_leak_score (parseScaleneLine_json ex_nulls_line Null) = Val 50"
    by (simp_all add: ex_nulls_line_def bare_json_line_def leakScore_json_spec_def
        leak_weight_json_def positive_def)
  have n: "nl_n_peak_mb (parseScaleneLine_json ex_nulls_line Null) = Null"
    "nl_n_cpu_percent_python (parseScaleneLine_json ex_nulls_line Null) = Undefined"
    "nl_n_cpu_percent_c (parseScaleneLine_json ex_nulls_line Null) = Undefined"
    "nl_n_sys_percent (parseScaleneLine_json ex_nulls_line Null) = Undefined"
    "nl_n_growth_mb (parseScaleneLine_json (bare_json_line 20 ''pass'') Null) = Undefined"
    by (simp_all add: parseScaleneLine_json_def Let_def ex_nulls_line_def bare_json_line_def)
  have z: "jst_maxMemoryMb initial_state_json = 0" "jst_totalCpuPython initial_state_json = 0"
    "jst_totalCpuC initial_state_json = 0" "jst_totalSys initial_state_json = 0"
    "jst_totalMemoryGrowthMb initial_state_json = 0"
    by (simp_all add: initial_state_json_def)
  from t [where d = "parseScaleneLine_json ex_nulls_line Null" and st = initial_state_json] n z
  have g: "jst_maxMemoryMb
        (aggregate_line_json initial_state_json (parseScaleneLine_json ex_nulls_line Null)) = 0
   \<and> jst_totalCpuPython
        (aggregate_line_json initial_state_json (parseScaleneLine_json ex_nulls_line Null)) = 0
   \<and> jst_totalCpuC
        (aggregate_line_json initial_state_json (parseScaleneLine_json ex_nulls_line Null)) = 0
   \<and> jst_totalSys
        (aggregate_line_json initial_state_json (parseScaleneLine_json ex_nulls_line Null)) = 0"
    by (simp add: absent_def)
  from t [where d = "parseScaleneLine_json (bare_json_line 20 ''pass'') Null"
            and st = initial_state_json] n z
  have g': "jst_totalMemoryGrowthMb
        (aggregate_line_json initial_state_json
           (parseScaleneLine_json (bare_json_line 20 ''pass'') Null)) = 0"
    by (simp add: absent_def)
  have "absent (jfn_name ex_null_name)" by (simp add: absent_def ex_null_name_def)
  with t [where g = ex_null_name]
  have i: "parseScaleneFunction_json ex_null_name = None" by blast
  from t [where typed = ex_two_files]
  have j: "parseScaleneProfile_json (json_profile ex_two_files)
       = Inr (norm_profile (parseScaleneProfile ex_two_files))" by blast
  from ex_nulls_report_matches q a ex_no_functions_mismatch b c nf d e f n(1) g g' i j
  show ?thesis by blast
qed

section \<open>The formatting helpers\<close>

lemma nat_digits_50: "nat_digits 50 = ''50''"
  by (simp add: nat_digits.simps digit_char_def)

lemma nat_digits_427: "nat_digits 427 = ''427''"
  by (simp add: nat_digits.simps digit_char_def)

lemma nat_digits_200: "nat_digits 200 = ''200''"
  by (simp add: nat_digits.simps digit_char_def)

lemma nat_digits_314: "nat_digits 314 = ''314''"
  by (simp add: nat_digits.simps digit_char_def)

lemma toFixed_half: "toFixed ts 2 0.5 = ''0.50''"
  by (simp add: toFixed_def nat_digits_50)

lemma toFixed_42_7: "toFixed ts 1 42.7 = ''42.7''"
  by (simp add: toFixed_def nat_digits_427)

lemma toFixed_2048_GB: "toFixed ts 2 (2048 / 1024) = ''2.00''"
  by (simp add: toFixed_def nat_digits_200)

lemma toFixed_pi: "toFixed ts 2 3.14159 = ''3.14''"
  by (simp add: toFixed_def nat_digits_314)

text \<open>
  Below \<open>10^21\<close> the result of \<open>toFixed\<close> with \<open>f > 0\<close> has an integer part, a point and
  exactly \<open>f\<close> decimals.
\<close>

lemma toFixed_shape:
  assumes "0 \<le> x" "x < 10 ^ 21" "0 < f"
  shows "\<exists>a b. toFixed numberToString f x = a @ ''.'' @ b \<and> a \<noteq> [] \<and> length b = f"
proof -
  define m where "m = nat_digits (nat \<lfloor>x * 10 ^ f + 1 / 2\<rfloor>)"
  define m' where "m' = replicate (f + 1 - length m) (CHR ''0'') @ m"
  have len: "f + 1 \<le> length m'" by (simp add: m'_def)
  have eq: "toFixed numberToString f x = take (length m' - f) m' @ ''.'' @ drop (length m' - f) m'"
    using assms by (simp add: toFixed_def Let_def m_def m'_def)
  have "take (length m' - f) m' \<noteq> []" using len by auto
  moreover have "length (drop (length m' - f) m') = f" using len by simp
  ultimately show ?thesis using eq by blast
qed

text \<open>
  Claim C9. The memory formatter gives \<open>-\<close> for an absent value and for 0, \<open><0.01 MB\<close>
  below 0.01, the value with two decimals and \<open>MB\<close> below 1, the value with one decimal
  and \<open>MB\<close> below 1000, and otherwise the value divided by 1024 with two decimals and
  \<open>GB\<close>. The percentage formatter gives \<open>-\<close> for an absent value and for 0, \<open><0.01%\<close>
  below 0.01, and otherwise the value with two decimals and \<open>%\<close>. A value with \<open>f\<close>
  decimals is what \<open>toFixed(f)\<close> returns.
\<close>

theorem formatters_case_analysis:
  "formatMemoryMb ts None = ''-''
   \<and> formatMemoryMb ts (Some 0) = ''-''
   \<and> (v \<noteq> 0 \<and> v < 0.01 \<longrightarrow> formatMemoryMb ts (Some v) = ''<0.01 MB'')
   \<and> (0.01 \<le> v \<and> v < 1 \<longrightarrow> formatMemoryMb ts (Some v) = toFixed ts 2 v @ '' MB'')
   \<and> (1 \<le> v \<and> v < 1000 \<longrightarrow> formatMemoryMb ts (Some v) = toFixed ts 1 v @ '' MB'')
   \<and> (1000 \<le> v \<longrightarrow> formatMemoryMb ts (Some v) = toFixed ts 2 (v / 1024) @ '' GB'')
   \<and> formatPercent ts None = ''-''
   \<and> formatPercent ts (Some 0) = ''-''
   \<and> (v \<noteq> 0 \<and> v < 0.01 \<longrightarrow> formatPercent ts (Some v) = ''<0.01%'')
   \<and> (0.01 \<le> v \<longrightarrow> formatPercent ts (Some v) = toFixed ts 2 v @ ''%'')"
  by (simp add: formatMemoryMb_def formatPercent_def)

theorem formatters_case_analysis_witness:
  "formatMemoryMb ex_numberToString (Some 0) = ''-''
   \<and> formatMemoryMb ex_numberToString (Some 0.005) = ''<0.01 MB''
   \<and> formatMemoryMb ex_numberToString (Some 0.5) = ''0.50 MB''
   \<and> formatMemoryMb ex_numberToString (Some 42.7) = ''42.7 MB''
   \<and> formatMemoryMb ex_numberToString (Some 2048) = ''2.00 GB''
   \<and> formatPercent ex_numberToString (Some 0) = ''-''
   \<and> formatPercent ex_numberToString (Some 0.005) = ''<0.01%''
   \<and> formatPercent ex_numberToString (Some 3.14159) = ''3.14%''"
proof -
  from formatters_case_analysis [of ex_numberToString "0.005"]
  have a: "formatMemoryMb ex_numberToString (Some 0) = ''-''" "formatMemoryMb ex_numberToString (Some 0.005) = ''<0.01 MB''"
    "formatPercent ex_numberToString (Some 0) = ''-''" "formatPercent ex_numberToString (Some 0.005) = ''<0.01%''"
    by simp_all
  from formatters_case_analysis [of ex_numberToString "0.5"] toFixed_half [of ex_numberToString]
  have b: "formatMemoryMb ex_numberToString (Some 0.5) = ''0.50 MB''" by simp
  from formatters_case_analysis [of ex_numberToString "42.7"] toFixed_42_7 [of ex_numberToString]
  have c: "formatMemoryMb ex_numberToString (Some 42.7) = ''42.7 MB''" by simp
  from formatters_case_analysis [of ex_numberToString 2048] toFixed_2048_GB [of ex_numberToString]
  have d: "formatMemoryMb ex_numberToString (Some 2048) = ''2.00 GB''" by simp
  from formatters_case_analysis [of ex_numberToString "3.14159"] toFixed_pi [of ex_numberToString]
  have e: "formatPercent ex_numberToString (Some 3.14159) = ''3.14%''" by simp
  from a b c d e show ?thesis by simp
qed

end
